theory Spec2Isabelle
  imports Main "HOL-Library.Sublist" "HOL-Library.AList"
begin

section \<open>JavaScript values and strings\<close>

text \<open>
  Values that cross the JSON boundary (parsed manifests, the schema-less
  \<^verbatim>\<open>analysisData\<close> blob, the insights object).  An object is the list of its
  own enumerable properties in the order \<^verbatim>\<open>Object.entries\<close> lists them, keys distinct.
  \<^verbatim>\<open>undefined\<close> is \<open>None\<close> of \<open>json option\<close>.  The numbers this program
  computes with are counts, sizes and lengths, so integers stand for numbers.
\<close>

datatype json =
    JNull
  | JBool bool
  | JNum int
  | JStr string
  | JArr "json list"
  | JObj "(string \<times> json) list"

datatype error =
    ENOENT
  | EISDIR
  | ReadError
  | SyntaxError
  | TypeError
  | ExecError string
  | StoreError
  | ValidationError
  | CastError

text \<open>\<^verbatim>\<open>String.prototype.split\<close> with a one-character separator: the empty string
  gives one empty piece, and a trailing separator gives a trailing empty piece.\<close>

fun split_on :: "char \<Rightarrow> string \<Rightarrow> string list" where
  "split_on c [] = [[]]"
| "split_on c (x # xs) =
     (if x = c then [] # split_on c xs
      else (case split_on c xs of [] \<Rightarrow> [[x]] | l # ls \<Rightarrow> (x # l) # ls))"

definition newline :: char where
  "newline = CHR 0x0A"

text \<open>\<^verbatim>\<open>toLowerCase\<close> on the ASCII letters; the extension tables of this program
  hold ASCII letters only.\<close>

definition to_lower_char :: "char \<Rightarrow> char" where
  "to_lower_char c =
     (let n = (of_char c :: nat) in if 65 \<le> n \<and> n \<le> 90 then char_of (n + 32) else c)"

definition toLowerCase :: "string \<Rightarrow> string" where
  "toLowerCase s = map to_lower_char s"

text \<open>\<^verbatim>\<open>path.extname\<close> of a single path component (a directory entry's name has no
  separator): from the last dot to the end; empty when there is no dot, when the only
  dot leads the name, and for the name \<^verbatim>\<open>..\<close>.\<close>

definition extname :: "string \<Rightarrow> string" where
  "extname name =
     (if CHR ''.'' \<notin> set name then []
      else
        (let ext = rev (takeWhile (\<lambda>c. c \<noteq> CHR ''.'') (rev name));
             startDot = length name - length ext - 1
         in if startDot = 0 \<or> name = ''..'' then [] else CHR ''.'' # ext))"

text \<open>A path below the workspace root is the list of its components;
  \<^verbatim>\<open>path.relative(repoPath, fullPath)\<close> prints them separated by a slash.\<close>

fun join_path :: "string list \<Rightarrow> string" where
  "join_path [] = []"
| "join_path [c] = c"
| "join_path (c # cs) = c @ ''/'' @ join_path cs"

section \<open>The workspace on disk\<close>

text \<open>
  A directory entry as \<^verbatim>\<open>readdirSync(dir, {withFileTypes: true})\<close> returns it: a
  directory with its entries in listing order, or anything else (name, size reported by
  \<^verbatim>\<open>statSync\<close>, and its text, \<open>None\<close> when \<^verbatim>\<open>readFileSync\<close> raises).  The disk maps
  a workspace path to the entries of that directory; a path not in the map does not
  exist.  Listing a directory inside an existing workspace and \<^verbatim>\<open>statSync\<close> are taken
  to succeed.
\<close>

datatype entry =
    File string nat "string option"
  | Dir string "entry list"

type_synonym disk = "string \<rightharpoonup> entry list"

fun entry_name :: "entry \<Rightarrow> string" where
  "entry_name (File n sz c) = n"
| "entry_name (Dir n items) = n"

section \<open>Metrics Calculator (repoAnalyzer.js, calculateMetrics and isTextFile)\<close>

definition binaryExtensions :: "string list" where
  "binaryExtensions =
     [''.png'', ''.jpg'', ''.jpeg'', ''.gif'', ''.ico'', ''.svg'',
      ''.pdf'', ''.zip'', ''.tar'', ''.gz'', ''.exe'', ''.dll'',
      ''.so'', ''.dylib'', ''.class'', ''.jar'', ''.war'']"

definition isTextFile :: "string \<Rightarrow> bool" where
  "isTextFile filename = (toLowerCase (extname filename) \<notin> set binaryExtensions)"

record largest_file =
  lf_name :: string
  lf_lines :: nat

record metrics =
  totalLines :: nat
  totalFiles :: nat
  avgLinesPerFile :: nat
  largestFile :: largest_file

text \<open>The body of the \<^verbatim>\<open>try\<close> block for one readable text file.\<close>

definition count_file :: "string \<Rightarrow> string \<Rightarrow> metrics \<Rightarrow> metrics" where
  "count_file relname content m =
     (let lines = length (split_on newline content);
          m1 = m\<lparr>totalLines := totalLines m + lines\<rparr>
      in if lines > lf_lines (largestFile m1)
         then m1\<lparr>largestFile := \<lparr>lf_name = relname, lf_lines = lines\<rparr>\<rparr>
         else m1)"

text \<open>The closure \<^verbatim>\<open>walk\<close> of calculateMetrics; \<open>rel\<close> is the directory being
  listed, relative to the workspace root.  A file whose read raises is counted in
  \<^verbatim>\<open>totalFiles\<close> and otherwise skipped.\<close>

fun metrics_walk :: "string list \<Rightarrow> entry list \<Rightarrow> metrics \<Rightarrow> metrics"
  and metrics_item :: "string list \<Rightarrow> entry \<Rightarrow> metrics \<Rightarrow> metrics" where
  "metrics_walk rel [] m = m"
| "metrics_walk rel (item # items) m = metrics_walk rel items (metrics_item rel item m)"
| "metrics_item rel (Dir n items) m = metrics_walk (rel @ [n]) items m"
| "metrics_item rel (File n sz c) m =
     (if isTextFile n then
        (let m1 = m\<lparr>totalFiles := totalFiles m + 1\<rparr>
         in case c of
              None \<Rightarrow> m1
            | Some content \<Rightarrow> count_file (join_path (rel @ [n])) content m1)
      else m)"

text \<open>\<^verbatim>\<open>Math.round(totalLines / totalFiles)\<close>: the nearest integer, halves upwards.\<close>

definition round_div :: "nat \<Rightarrow> nat \<Rightarrow> nat" where
  "round_div a b = (2 * a + b) div (2 * b)"

definition metrics0 :: metrics where
  "metrics0 = \<lparr>totalLines = 0, totalFiles = 0, avgLinesPerFile = 0,
               largestFile = \<lparr>lf_name = [], lf_lines = 0\<rparr>\<rparr>"

definition calculateMetrics :: "disk \<Rightarrow> string \<Rightarrow> error + metrics" where
  "calculateMetrics d repoPath =
     (case d repoPath of
        None \<Rightarrow> Inl ENOENT
      | Some items \<Rightarrow>
          (let m = metrics_walk [] items metrics0
           in Inr (if totalFiles m > 0
                   then m\<lparr>avgLinesPerFile := round_div (totalLines m) (totalFiles m)\<rparr>
                   else m)))"

text \<open>The readable text files of a tree in the order the walk meets them, each with
  its relative path and line count: the list the claim about the largest file speaks
  of.\<close>

fun text_files :: "string list \<Rightarrow> entry list \<Rightarrow> (string \<times> nat) list"
  and text_file :: "string list \<Rightarrow> entry \<Rightarrow> (string \<times> nat) list" where
  "text_files rel [] = []"
| "text_files rel (item # items) = text_file rel item @ text_files rel items"
| "text_file rel (Dir n items) = text_files (rel @ [n]) items"
| "text_file rel (File n sz c) =
     (case c of
        None \<Rightarrow> []
      | Some content \<Rightarrow>
          (if isTextFile n
           then [(join_path (rel @ [n]), length (split_on newline content))]
           else []))"

definition keep_larger :: "string \<times> nat \<Rightarrow> largest_file \<Rightarrow> largest_file" where
  "keep_larger f cur =
     (if snd f > lf_lines cur then \<lparr>lf_name = fst f, lf_lines = snd f\<rparr> else cur)"

section \<open>Properties of the Metrics Calculator\<close>

lemma split_on_nonempty: "split_on c s \<noteq> []"
  by (induction s) (auto split: list.splits)

lemma split_on_length_pos: "0 < length (split_on c s)"
  using split_on_nonempty [of c s] by simp

lemma largest_count_file:
  "largestFile (count_file p content m) =
     keep_larger (p, length (split_on newline content)) (largestFile m)"
  by (simp add: count_file_def keep_larger_def Let_def)

lemma largest_metrics_walk:
  "largestFile (metrics_walk rel items m) = fold keep_larger (text_files rel items) (largestFile m)"
  "largestFile (metrics_item rel item m) = fold keep_larger (text_file rel item) (largestFile m)"
proof (induction rel items m and rel item m rule: metrics_walk_metrics_item.induct)
  case (4 rel n sz c m)
  then show ?case
    by (cases c) (simp_all add: largest_count_file Let_def)
qed simp_all

lemma text_files_lines_pos:
  "\<forall>f \<in> set (text_files rel items). 0 < snd f"
  "\<forall>f \<in> set (text_file rel item). 0 < snd f"
proof (induction rel items and rel item rule: text_files_text_file.induct)
  case (4 rel n sz c)
  then show ?case
    by (cases c) (simp_all add: split_on_nonempty)
qed auto

lemma keep_larger_snoc:
  "fold keep_larger (xs @ [(n, l)]) cur =
     (if lf_lines (fold keep_larger xs cur) < l then \<lparr>lf_name = n, lf_lines = l\<rparr>
      else fold keep_larger xs cur)"
  by (simp add: keep_larger_def)

lemma fold_keep_larger:
  "(fold keep_larger fs cur = cur \<and> (\<forall>f \<in> set fs. snd f \<le> lf_lines cur)) \<or>
   (\<exists>pre n l post. fs = pre @ (n, l) # post \<and>
      fold keep_larger fs cur = \<lparr>lf_name = n, lf_lines = l\<rparr> \<and> lf_lines cur < l \<and>
      (\<forall>f \<in> set pre. snd f < l) \<and> (\<forall>f \<in> set post. snd f \<le> l))"
  (is "?same fs \<or> ?found fs")
proof (induction fs rule: rev_induct)
  case Nil
  then show ?case by simp
next
  case (snoc x xs)
  obtain n l where x: "x = (n, l)" by (cases x)
  from snoc show ?case
  proof
    assume "?same xs"
    then have same: "fold keep_larger xs cur = cur"
      and le: "\<forall>f \<in> set xs. snd f \<le> lf_lines cur" by simp_all
    show ?thesis
    proof (cases "lf_lines cur < l")
      case True
      have res: "fold keep_larger (xs @ [x]) cur = \<lparr>lf_name = n, lf_lines = l\<rparr>"
        unfolding x keep_larger_snoc same using True by simp
      have "\<forall>f \<in> set xs. snd f < l" using le True by auto
      then have "?found (xs @ [x])"
        unfolding res using True
        by (rule_tac x = xs in exI, rule_tac x = n in exI, rule_tac x = l in exI,
            rule_tac x = "[]" in exI) (simp add: x)
      then show ?thesis ..
    next
      case False
      have res: "fold keep_larger (xs @ [x]) cur = cur"
        unfolding x keep_larger_snoc same using False by simp
      have "?same (xs @ [x])"
        unfolding res using False le by (simp add: x)
      then show ?thesis ..
    qed
  next
    assume "?found xs"
    then obtain pre n' l' post where dec: "xs = pre @ (n', l') # post"
      and found: "fold keep_larger xs cur = \<lparr>lf_name = n', lf_lines = l'\<rparr>"
      and gt: "lf_lines cur < l'"
      and before: "\<forall>f \<in> set pre. snd f < l'"
      and after: "\<forall>f \<in> set post. snd f \<le> l'"
      by blast
    show ?thesis
    proof (cases "l' < l")
      case True
      have res: "fold keep_larger (xs @ [x]) cur = \<lparr>lf_name = n, lf_lines = l\<rparr>"
        unfolding x keep_larger_snoc found using True by simp
      have "\<forall>f \<in> set xs. snd f < l" using dec before after True by auto
      then have "?found (xs @ [x])"
        unfolding res using True gt
        by (rule_tac x = xs in exI, rule_tac x = n in exI, rule_tac x = l in exI,
            rule_tac x = "[]" in exI) (simp add: x)
      then show ?thesis ..
    next
      case False
      have res: "fold keep_larger (xs @ [x]) cur = \<lparr>lf_name = n', lf_lines = l'\<rparr>"
        unfolding x keep_larger_snoc found using False by simp
      have "?found (xs @ [x])"
        unfolding res using False gt before after
        by (rule_tac x = pre in exI, rule_tac x = n' in exI, rule_tac x = l' in exI,
            rule_tac x = "post @ [x]" in exI) (simp add: x dec)
      then show ?thesis ..
    qed
  qed
qed

lemma calculateMetrics_largest:
  assumes "d repoPath = Some items"
  shows "\<exists>m. calculateMetrics d repoPath = Inr m \<and>
           largestFile m = fold keep_larger (text_files [] items) \<lparr>lf_name = [], lf_lines = 0\<rparr>"
  using assms by (simp add: calculateMetrics_def Let_def largest_metrics_walk metrics0_def)

text \<open>
  Claim C8.  For every workspace tree that exists on disk, calculateMetrics returns,
  and the largest file it reports is the earliest readable text file, in traversal
  order, whose line count is the maximum: every file met before it has strictly fewer
  lines and every file met after it has at most as many, so a later file with an equal
  count does not replace it.  With no readable text file the initial record (empty
  name, zero lines) is reported.
\<close>

theorem calculateMetrics_largestFile_earliest_maximum:
  assumes "d repoPath = Some items"
  shows "\<exists>m. calculateMetrics d repoPath = Inr m \<and>
           (if text_files [] items = []
            then largestFile m = \<lparr>lf_name = [], lf_lines = 0\<rparr>
            else (\<exists>pre post.
                    text_files [] items =
                      pre @ (lf_name (largestFile m), lf_lines (largestFile m)) # post \<and>
                    (\<forall>f \<in> set pre. snd f < lf_lines (largestFile m)) \<and>
                    (\<forall>f \<in> set post. snd f \<le> lf_lines (largestFile m))))"
proof -
  let ?fs = "text_files [] items"
  let ?init = "\<lparr>lf_name = [], lf_lines = 0\<rparr>"
  from calculateMetrics_largest [of d repoPath items, OF assms] obtain m
    where ret: "calculateMetrics d repoPath = Inr m"
      and lf: "largestFile m = fold keep_larger ?fs ?init"
    by blast
  have "if ?fs = [] then largestFile m = ?init
        else (\<exists>pre post. ?fs = pre @ (lf_name (largestFile m), lf_lines (largestFile m)) # post \<and>
                (\<forall>f \<in> set pre. snd f < lf_lines (largestFile m)) \<and>
                (\<forall>f \<in> set post. snd f \<le> lf_lines (largestFile m)))"
  proof (cases "?fs = []")
    case True
    then show ?thesis by (simp add: lf)
  next
    case False
    then obtain f where f: "f \<in> set ?fs" by (cases ?fs) auto
    then have pos: "0 < snd f" using text_files_lines_pos(1) [of "[]" items] by blast
    from fold_keep_larger [of ?fs ?init]
    obtain pre n l post where dec: "?fs = pre @ (n, l) # post"
      and res: "fold keep_larger ?fs ?init = \<lparr>lf_name = n, lf_lines = l\<rparr>"
      and before: "\<forall>f \<in> set pre. snd f < l"
      and after: "\<forall>f \<in> set post. snd f \<le> l"
      using f pos by fastforce
    have lfm: "largestFile m = \<lparr>lf_name = n, lf_lines = l\<rparr>"
      using lf res by simp
    have "?fs = pre @ (lf_name (largestFile m), lf_lines (largestFile m)) # post"
      unfolding lfm using dec by simp
    moreover have "\<forall>f \<in> set pre. snd f < lf_lines (largestFile m)"
      unfolding lfm using before by simp
    moreover have "\<forall>f \<in> set post. snd f \<le> lf_lines (largestFile m)"
      unfolding lfm using after by simp
    ultimately show ?thesis using False by auto
  qed
  with ret show ?thesis by blast
qed

text \<open>A workspace with two files of two lines each, a binary file and a shorter
  file in a subdirectory: the first of the two-line files is reported.\<close>

definition sample_items :: "entry list" where
  "sample_items =
     [File ''a.js'' 3 (Some [CHR ''x'', newline, CHR ''y'']),
      File ''logo.PNG'' 9 (Some [newline, newline, newline, newline]),
      File ''b.py'' 3 (Some [CHR ''p'', newline, CHR ''q'']),
      Dir ''docs'' [File ''README.md'' 2 (Some ''hi'')]]"

definition sample_disk :: disk where
  "sample_disk = Map.empty(''/tmp/repos/r1'' \<mapsto> sample_items)"

lemma sample_text_files:
  "text_files [] sample_items = [(''a.js'', 2), (''b.py'', 2), (''docs/README.md'', 1)]"
  by code_simp

theorem calculateMetrics_largestFile_witness:
  "\<exists>m. calculateMetrics sample_disk ''/tmp/repos/r1'' = Inr m \<and>
        lf_name (largestFile m) = ''a.js'' \<and> lf_lines (largestFile m) = 2"
proof -
  have ex: "sample_disk ''/tmp/repos/r1'' = Some sample_items"
    by (simp add: sample_disk_def)
  from calculateMetrics_largestFile_earliest_maximum
    [of sample_disk "''/tmp/repos/r1''" sample_items, OF ex]
  obtain m pre post where ret: "calculateMetrics sample_disk ''/tmp/repos/r1'' = Inr m"
    and dec: "[(''a.js'', 2), (''b.py'', 2), (''docs/README.md'', 1)] =
                pre @ (lf_name (largestFile m), lf_lines (largestFile m)) # post"
    and before: "\<forall>f \<in> set pre. snd f < lf_lines (largestFile m)"
    and after: "\<forall>f \<in> set post. snd f \<le> lf_lines (largestFile m)"
    unfolding sample_text_files by auto
  have "pre = []"
  proof (cases pre)
    case (Cons p ps)
    with dec have p: "p = (''a.js'', 2)" by simp
    show ?thesis
    proof (cases ps)
      case Nil
      with dec Cons before p show ?thesis by auto
    next
      case (Cons q qs)
      with dec \<open>pre = p # ps\<close> have q: "q = (''b.py'', 2)" by simp
      show ?thesis
      proof (cases qs)
        case Nil
        with dec Cons \<open>pre = p # ps\<close> before p q show ?thesis by auto
      next
        case (Cons r rs)
        with dec \<open>pre = p # ps\<close> \<open>ps = q # qs\<close> show ?thesis by auto
      qed
    qed
  qed simp
  with dec have "lf_name (largestFile m) = ''a.js''" "lf_lines (largestFile m) = 2" by simp_all
  with ret show ?thesis by blast
qed

section \<open>Dependency Extractor (repoAnalyzer.js, analyzeDependencies)\<close>

record dependency =
  dep_name :: string
  dep_version :: string
  dep_type :: string
  dep_manager :: string

text \<open>\<^verbatim>\<open>s.replace(c, '')\<close> with a one-character string pattern: only the first
  occurrence is replaced.\<close>

fun replace_first :: "char \<Rightarrow> string \<Rightarrow> string" where
  "replace_first c [] = []"
| "replace_first c (x # xs) = (if x = c then xs else x # replace_first c xs)"

text \<open>Truthiness of a value (\<open>None\<close> is \<^verbatim>\<open>undefined\<close>).\<close>

fun truthy :: "json option \<Rightarrow> bool" where
  "truthy None = False"
| "truthy (Some JNull) = False"
| "truthy (Some (JBool b)) = b"
| "truthy (Some (JNum n)) = (n \<noteq> 0)"
| "truthy (Some (JStr s)) = (s \<noteq> [])"
| "truthy (Some (JArr xs)) = True"
| "truthy (Some (JObj kvs)) = True"

text \<open>Reading a property, for the property names this program reads (none of them
  an array index or a method of a prototype).\<close>

fun js_prop :: "json \<Rightarrow> string \<Rightarrow> json option" where
  "js_prop (JObj kvs) k = map_of kvs k"
| "js_prop (JArr xs) k = (if k = ''length'' then Some (JNum (int (length xs))) else None)"
| "js_prop (JStr s) k = (if k = ''length'' then Some (JNum (int (length s))) else None)"
| "js_prop v k = None"

text \<open>\<^verbatim>\<open>v.k\<close> without optional chaining raises on \<^verbatim>\<open>null\<close>.\<close>

definition get_property :: "json \<Rightarrow> string \<Rightarrow> error + json option" where
  "get_property v k = (if v = JNull then Inl TypeError else Inr (js_prop v k))"

text \<open>Decimal digits of a natural number, for the index keys of
  \<^verbatim>\<open>Object.entries\<close> on an array or a string.\<close>

fun show_nat :: "nat \<Rightarrow> string" where
  "show_nat n =
     (if n < 10 then [char_of (48 + n)]
      else show_nat (n div 10) @ [char_of (48 + n mod 10)])"

declare show_nat.simps [simp del]

fun object_entries :: "json \<Rightarrow> (string \<times> json) list" where
  "object_entries (JObj kvs) = kvs"
| "object_entries (JArr xs) = zip (map show_nat [0..<length xs]) xs"
| "object_entries (JStr s) = zip (map show_nat [0..<length s]) (map (\<lambda>c. JStr [c]) s)"
| "object_entries v = []"

text \<open>The callback of the \<^verbatim>\<open>forEach\<close> over the dependency section: \<^verbatim>\<open>version.replace\<close>
  exists on strings only.\<close>

definition npm_record :: "string \<Rightarrow> json \<Rightarrow> error + dependency" where
  "npm_record name version =
     (case version of
        JStr v \<Rightarrow>
          Inr \<lparr>dep_name = name,
               dep_version = replace_first (CHR ''~'') (replace_first (CHR ''^'') v),
               dep_type = ''runtime'', dep_manager = ''npm''\<rparr>
      | _ \<Rightarrow> Inl TypeError)"

fun npm_records :: "(string \<times> json) list \<Rightarrow> dependency list \<Rightarrow> error + dependency list" where
  "npm_records [] deps = Inr deps"
| "npm_records ((name, version) # es) deps =
     (case npm_record name version of
        Inl e \<Rightarrow> Inl e
      | Inr r \<Rightarrow> npm_records es (deps @ [r]))"

text \<open>The pattern \<^verbatim>\<open>/^([a-zA-Z0-9_-]+)==([0-9.]+)/\<close>.  Both groups are greedy runs of
  a character class that the character after them is not in, so the match is unique.\<close>

definition is_name_char :: "char \<Rightarrow> bool" where
  "is_name_char c =
     (let n = (of_char c :: nat)
      in (97 \<le> n \<and> n \<le> 122) \<or> (65 \<le> n \<and> n \<le> 90) \<or> (48 \<le> n \<and> n \<le> 57) \<or>
         c = CHR ''_'' \<or> c = CHR ''-'')"

definition is_version_char :: "char \<Rightarrow> bool" where
  "is_version_char c =
     (let n = (of_char c :: nat) in (48 \<le> n \<and> n \<le> 57) \<or> c = CHR ''.'')"

definition match_requirement :: "string \<Rightarrow> (string \<times> string) option" where
  "match_requirement line =
     (let name = takeWhile is_name_char line;
          rest = dropWhile is_name_char line;
          version = takeWhile is_version_char (drop 2 rest)
      in if name \<noteq> [] \<and> take 2 rest = ''=='' \<and> version \<noteq> []
         then Some (name, version) else None)"

fun pip_records :: "string list \<Rightarrow> dependency list \<Rightarrow> dependency list" where
  "pip_records [] deps = deps"
| "pip_records (line # lines) deps =
     (case match_requirement line of
        None \<Rightarrow> pip_records lines deps
      | Some (name, version) \<Rightarrow>
          pip_records lines
            (deps @ [\<lparr>dep_name = name, dep_version = version,
                      dep_type = ''runtime'', dep_manager = ''pip''\<rparr>]))"

fun find_entry :: "string \<Rightarrow> entry list \<Rightarrow> entry option" where
  "find_entry name [] = None"
| "find_entry name (item # items) =
     (if entry_name item = name then Some item else find_entry name items)"

text \<open>\<^verbatim>\<open>fs.existsSync(path.join(repoPath, name))\<close> and
  \<^verbatim>\<open>fs.readFileSync(path.join(repoPath, name), 'utf8')\<close>.\<close>

definition existsSync :: "disk \<Rightarrow> string \<Rightarrow> string \<Rightarrow> bool" where
  "existsSync d repoPath name =
     (case d repoPath of None \<Rightarrow> False | Some items \<Rightarrow> find_entry name items \<noteq> None)"

definition readFileSync :: "disk \<Rightarrow> string \<Rightarrow> string \<Rightarrow> error + string" where
  "readFileSync d repoPath name =
     (case d repoPath of
        None \<Rightarrow> Inl ENOENT
      | Some items \<Rightarrow>
          (case find_entry name items of
             None \<Rightarrow> Inl ENOENT
           | Some (Dir n sub) \<Rightarrow> Inl EISDIR
           | Some (File n sz None) \<Rightarrow> Inl ReadError
           | Some (File n sz (Some content)) \<Rightarrow> Inr content))"

text \<open>The first block of analyzeDependencies.  \<open>JSON_parse\<close> is the parser of the
  runtime, \<open>None\<close> when it raises a SyntaxError.\<close>

definition package_json_dependencies ::
  "(string \<Rightarrow> json option) \<Rightarrow> disk \<Rightarrow> string \<Rightarrow> error + dependency list" where
  "package_json_dependencies JSON_parse d repoPath =
     (if existsSync d repoPath ''package.json'' then
        (case readFileSync d repoPath ''package.json'' of
           Inl e \<Rightarrow> Inl e
         | Inr text \<Rightarrow>
             (case JSON_parse text of
                None \<Rightarrow> Inl SyntaxError
              | Some packageJson \<Rightarrow>
                  (case get_property packageJson ''dependencies'' of
                     Inl e \<Rightarrow> Inl e
                   | Inr deps \<Rightarrow>
                       (if truthy deps then npm_records (object_entries (the deps)) []
                        else Inr []))))
      else Inr [])"

definition analyzeDependencies ::
  "(string \<Rightarrow> json option) \<Rightarrow> disk \<Rightarrow> string \<Rightarrow> error + dependency list" where
  "analyzeDependencies JSON_parse d repoPath =
     (case package_json_dependencies JSON_parse d repoPath of
        Inl e \<Rightarrow> Inl e
      | Inr dependencies \<Rightarrow>
          (if existsSync d repoPath ''requirements.txt'' then
             (case readFileSync d repoPath ''requirements.txt'' of
                Inl e \<Rightarrow> Inl e
              | Inr content \<Rightarrow> Inr (pip_records (split_on newline content) dependencies))
           else Inr dependencies))"

text \<open>A pinned-version list written out: its lines joined by newlines.\<close>

fun join_lines :: "string list \<Rightarrow> string" where
  "join_lines [] = []"
| "join_lines [l] = l"
| "join_lines (l # ls) = l @ [newline] @ join_lines ls"

definition requirement_line :: "string \<times> string \<Rightarrow> string" where
  "requirement_line e = fst e @ ''=='' @ snd e"

definition wf_requirement :: "string \<times> string \<Rightarrow> bool" where
  "wf_requirement e =
     (fst e \<noteq> [] \<and> snd e \<noteq> [] \<and> list_all is_name_char (fst e) \<and>
      list_all is_version_char (snd e))"

definition npm_dependency :: "string \<times> string \<Rightarrow> dependency" where
  "npm_dependency e =
     \<lparr>dep_name = fst e,
      dep_version = replace_first (CHR ''~'') (replace_first (CHR ''^'') (snd e)),
      dep_type = ''runtime'', dep_manager = ''npm''\<rparr>"

definition pip_dependency :: "string \<times> string \<Rightarrow> dependency" where
  "pip_dependency e =
     \<lparr>dep_name = fst e, dep_version = snd e, dep_type = ''runtime'', dep_manager = ''pip''\<rparr>"

definition string_entry :: "string \<times> string \<Rightarrow> string \<times> json" where
  "string_entry e = (fst e, JStr (snd e))"

section \<open>Properties of the Dependency Extractor\<close>

lemma npm_records_strings:
  "npm_records (map string_entry es) acc = Inr (acc @ map npm_dependency es)"
  by (induction es arbitrary: acc)
     (auto simp: string_entry_def npm_record_def npm_dependency_def)

lemma not_name_char_eq: "\<not> is_name_char (CHR ''='')"
  by (simp add: is_name_char_def)

lemma not_version_char_eq: "\<not> is_version_char (CHR ''='')"
  by (simp add: is_version_char_def)

lemma not_name_char_newline: "\<not> is_name_char newline"
  by (simp add: is_name_char_def newline_def)

lemma not_version_char_newline: "\<not> is_version_char newline"
  by (simp add: is_version_char_def newline_def)

lemma not_version_char_marker:
  "\<not> is_version_char (CHR ''^'')" "\<not> is_version_char (CHR ''~'')"
  by (simp_all add: is_version_char_def)

lemma match_requirement_line:
  assumes "wf_requirement (n, v)"
  shows "match_requirement (requirement_line (n, v)) = Some (n, v)"
proof -
  from assms have n: "n \<noteq> []" "\<forall>c \<in> set n. is_name_char c"
    and v: "v \<noteq> []" "\<forall>c \<in> set v. is_version_char c"
    by (simp_all add: wf_requirement_def list_all_iff)
  have tw: "takeWhile is_name_char (n @ ''=='' @ v) = n"
    using n(2) by (simp add: takeWhile_append2 not_name_char_eq)
  have dw: "dropWhile is_name_char (n @ ''=='' @ v) = ''=='' @ v"
    using n(2) by (simp add: dropWhile_append2 not_name_char_eq)
  have tv: "takeWhile is_version_char v = v"
    using v(2) by (simp add: takeWhile_eq_all_conv)
  have "match_requirement (n @ ''=='' @ v) = Some (n, v)"
    unfolding match_requirement_def tw dw Let_def
    using n(1) v(1) by (simp add: tv)
  then show ?thesis by (simp add: requirement_line_def)
qed

lemma split_on_no_sep: "c \<notin> set l \<Longrightarrow> split_on c l = [l]"
  by (induction l) auto

lemma split_on_append_sep:
  "c \<notin> set l \<Longrightarrow> split_on c (l @ c # rest) = l # split_on c rest"
  by (induction l) auto

lemma split_join_lines:
  "ls \<noteq> [] \<Longrightarrow> \<forall>l \<in> set ls. newline \<notin> set l \<Longrightarrow> split_on newline (join_lines ls) = ls"
proof (induction ls rule: join_lines.induct)
  case (3 l l' ls)
  then show ?case by (simp add: split_on_append_sep)
qed (simp_all add: split_on_no_sep)

lemma requirement_line_no_newline:
  assumes "wf_requirement e"
  shows "newline \<notin> set (requirement_line e)"
proof -
  from assms have "\<forall>c \<in> set (fst e). is_name_char c" "\<forall>c \<in> set (snd e). is_version_char c"
    by (simp_all add: wf_requirement_def list_all_iff)
  then have "newline \<notin> set (fst e)" "newline \<notin> set (snd e)"
    using not_name_char_newline not_version_char_newline by blast+
  then show ?thesis by (simp add: requirement_line_def newline_def)
qed

lemma pip_records_lines:
  "list_all wf_requirement es \<Longrightarrow>
   pip_records (map requirement_line es) acc = acc @ map pip_dependency es"
proof (induction es arbitrary: acc)
  case Nil
  then show ?case by simp
next
  case (Cons e es)
  obtain n v where e: "e = (n, v)" by (cases e)
  from Cons.prems have "wf_requirement (n, v)" by (simp add: e)
  then have "match_requirement (requirement_line e) = Some (n, v)"
    unfolding e by (rule match_requirement_line)
  with Cons show ?case by (simp add: e pip_dependency_def)
qed

lemma match_requirement_empty: "match_requirement [] = None"
  by (simp add: match_requirement_def)

lemma pip_records_content:
  assumes "list_all wf_requirement es"
  shows "pip_records (split_on newline (join_lines (map requirement_line es))) acc =
           acc @ map pip_dependency es"
proof (cases es)
  case Nil
  then show ?thesis by (simp add: match_requirement_empty)
next
  case (Cons e es')
  have "\<forall>l \<in> set (map requirement_line es). newline \<notin> set l"
    using assms requirement_line_no_newline by (auto simp: list_all_iff)
  then have "split_on newline (join_lines (map requirement_line es)) = map requirement_line es"
    using Cons by (intro split_join_lines) simp_all
  then show ?thesis using assms by (simp add: pip_records_lines)
qed

lemma split_on_terminated: "split_on c (s @ [c]) = split_on c s @ [[]]"
proof (induction s)
  case Nil
  then show ?case by simp
next
  case (Cons x xs)
  then show ?case
    using split_on_nonempty [of c xs] by (cases "split_on c xs") auto
qed

lemma pip_records_append:
  "pip_records (ls @ ls') acc = pip_records ls' (pip_records ls acc)"
  by (induction ls arbitrary: acc) (auto split: option.splits)

lemma pip_records_content_terminated:
  assumes "list_all wf_requirement es"
  shows "pip_records
           (split_on newline
              (join_lines (map requirement_line es) @ (if terminated then [newline] else [])))
           acc = acc @ map pip_dependency es"
proof (cases terminated)
  case True
  then show ?thesis
    using pip_records_content [OF assms, of acc]
    by (simp add: split_on_terminated pip_records_append match_requirement_empty)
next
  case False
  then show ?thesis using pip_records_content [OF assms, of acc] by simp
qed

lemma set_replace_first: "set (replace_first c s) \<subseteq> set s"
  by (induction s) auto

lemma replace_first_single:
  "count_list s c \<le> 1 \<Longrightarrow> c \<notin> set (replace_first c s)"
  by (induction s) (auto simp: count_list_0_iff split: if_splits)

lemma count_replace_first_other:
  "c \<noteq> c' \<Longrightarrow> count_list (replace_first c' s) c = count_list s c"
  by (induction s) auto

definition single_markers :: "string \<times> string \<Rightarrow> bool" where
  "single_markers e =
     (count_list (snd e) (CHR ''^'') \<le> 1 \<and> count_list (snd e) (CHR ''~'') \<le> 1)"

definition no_markers :: "dependency \<Rightarrow> bool" where
  "no_markers r = (CHR ''^'' \<notin> set (dep_version r) \<and> CHR ''~'' \<notin> set (dep_version r))"

lemma npm_dependency_no_markers:
  assumes "single_markers e"
  shows "no_markers (npm_dependency e)"
proof -
  let ?v1 = "replace_first (CHR ''^'') (snd e)"
  from assms have "CHR ''^'' \<notin> set ?v1"
    by (simp add: single_markers_def replace_first_single)
  then have caret: "CHR ''^'' \<notin> set (replace_first (CHR ''~'') ?v1)"
    using set_replace_first [of "CHR ''~''" ?v1] by blast
  have "count_list ?v1 (CHR ''~'') \<le> 1"
    using assms by (simp add: single_markers_def count_replace_first_other)
  then have "CHR ''~'' \<notin> set (replace_first (CHR ''~'') ?v1)"
    by (rule replace_first_single)
  with caret show ?thesis by (simp add: no_markers_def npm_dependency_def)
qed

lemma pip_dependency_no_markers:
  assumes "wf_requirement e"
  shows "no_markers (pip_dependency e)"
proof -
  from assms have "\<forall>c \<in> set (snd e). is_version_char c"
    by (simp add: wf_requirement_def list_all_iff)
  then show ?thesis
    using not_version_char_marker by (auto simp: no_markers_def pip_dependency_def)
qed

lemma package_json_dependencies_strings:
  assumes root: "d repoPath = Some items"
    and npm: "(find_entry ''package.json'' items = None \<and> npm = []) \<or>
       (\<exists>n sz text pj. find_entry ''package.json'' items = Some (File n sz (Some text)) \<and>
          JSON_parse text = Some pj \<and>
          js_prop pj ''dependencies'' = Some (JObj (map string_entry npm)))"
  shows "package_json_dependencies JSON_parse d repoPath = Inr (map npm_dependency npm)"
  using npm
proof
  assume "find_entry ''package.json'' items = None \<and> npm = []"
  then show ?thesis
    by (simp add: package_json_dependencies_def existsSync_def root)
next
  assume "\<exists>n sz text pj. find_entry ''package.json'' items = Some (File n sz (Some text)) \<and>
          JSON_parse text = Some pj \<and>
          js_prop pj ''dependencies'' = Some (JObj (map string_entry npm))"
  then obtain n sz body pj
    where f: "find_entry ''package.json'' items = Some (File n sz (Some body))"
      and p: "JSON_parse body = Some pj"
      and ds: "js_prop pj ''dependencies'' = Some (JObj (map string_entry npm))"
    by blast
  from ds have nn: "pj \<noteq> JNull" by auto
  have ex: "existsSync d repoPath ''package.json''"
    by (simp add: existsSync_def root f)
  have rd: "readFileSync d repoPath ''package.json'' = Inr body"
    by (simp add: readFileSync_def root f)
  have gp: "get_property pj ''dependencies'' = Inr (Some (JObj (map string_entry npm)))"
    using nn ds by (simp add: get_property_def)
  show ?thesis
    unfolding package_json_dependencies_def
    by (simp add: ex rd p gp npm_records_strings)
qed

text \<open>
  The number of records.  A package.json whose dependency section has N keys with
  string versions, and a requirements.txt of N' lines \<^verbatim>\<open>name==version\<close> (name in
  \<^verbatim>\<open>[a-zA-Z0-9_-]+\<close>, version in \<^verbatim>\<open>[0-9.]+\<close>; the last line with or without its
  newline), give exactly N + N' records, in order.  When every declared version holds
  at most one \<^verbatim>\<open>^\<close> and at most one \<^verbatim>\<open>~\<close>, no record's version holds a range
  marker.
\<close>

lemma analyzeDependencies_well_formed_manifests:
  assumes root: "d repoPath = Some items"
    and npm: "(find_entry ''package.json'' items = None \<and> npm = []) \<or>
       (\<exists>n sz text pj. find_entry ''package.json'' items = Some (File n sz (Some text)) \<and>
          JSON_parse text = Some pj \<and>
          js_prop pj ''dependencies'' = Some (JObj (map string_entry npm)))"
    and pip: "(find_entry ''requirements.txt'' items = None \<and> pip = []) \<or>
       (\<exists>n sz. find_entry ''requirements.txt'' items =
                  Some (File n sz (Some (join_lines (map requirement_line pip) @
                                         (if terminated then [newline] else [])))) \<and>
          list_all wf_requirement pip)"
  shows "\<exists>deps. analyzeDependencies JSON_parse d repoPath = Inr deps \<and>
           deps = map npm_dependency npm @ map pip_dependency pip \<and>
           length deps = length npm + length pip \<and>
           (list_all single_markers npm \<longrightarrow> list_all no_markers deps)"
proof -
  let ?deps = "map npm_dependency npm @ map pip_dependency pip"
  have first: "package_json_dependencies JSON_parse d repoPath = Inr (map npm_dependency npm)"
    using root npm by (rule package_json_dependencies_strings)
  have wf: "list_all wf_requirement pip" using pip by auto
  have run: "analyzeDependencies JSON_parse d repoPath = Inr ?deps"
    using pip
  proof
    assume "find_entry ''requirements.txt'' items = None \<and> pip = []"
    then show ?thesis
      by (simp add: analyzeDependencies_def first existsSync_def root)
  next
    assume "\<exists>n sz. find_entry ''requirements.txt'' items =
                  Some (File n sz (Some (join_lines (map requirement_line pip) @
                                         (if terminated then [newline] else [])))) \<and>
          list_all wf_requirement pip"
    then obtain n sz where f: "find_entry ''requirements.txt'' items =
                  Some (File n sz (Some (join_lines (map requirement_line pip) @
                                         (if terminated then [newline] else []))))"
      by blast
    have ex: "existsSync d repoPath ''requirements.txt''"
      by (simp add: existsSync_def root f)
    have rd: "readFileSync d repoPath ''requirements.txt'' =
                Inr (join_lines (map requirement_line pip) @
                     (if terminated then [newline] else []))"
      by (simp add: readFileSync_def root f)
    show ?thesis
      unfolding analyzeDependencies_def
      by (simp only: first ex rd pip_records_content_terminated [OF wf] sum.case if_True
          append_Nil)
  qed
  have "list_all no_markers ?deps" if "list_all single_markers npm"
    using that wf npm_dependency_no_markers pip_dependency_no_markers
    by (auto simp: list_all_iff)
  with run show ?thesis by simp
qed

text \<open>A workspace with both manifests.\<close>

definition manifest_json_text :: string where
  \<open>manifest_json_text = ''{"dependencies":{"express":"^4.18.2","lodash":"~4.17.21"}}''\<close>

definition manifest_parse :: "string \<Rightarrow> json option" where
  "manifest_parse text =
     (if text = manifest_json_text
      then Some (JObj [(''dependencies'',
                  JObj [(''express'', JStr ''^4.18.2''), (''lodash'', JStr ''~4.17.21'')])])
      else None)"

definition manifest_items :: "entry list" where
  "manifest_items =
     [File ''package.json'' 62 (Some manifest_json_text),
      File ''requirements.txt'' 30
        (Some (join_lines [''flask==2.0.1'', ''requests==2.31.0''] @ [newline]))]"

definition manifest_disk :: disk where
  "manifest_disk = Map.empty(''/tmp/repos/r2'' \<mapsto> manifest_items)"

lemma analyzeDependencies_manifests_sample:
  "analyzeDependencies manifest_parse manifest_disk ''/tmp/repos/r2'' =
     Inr [\<lparr>dep_name = ''express'', dep_version = ''4.18.2'',
            dep_type = ''runtime'', dep_manager = ''npm''\<rparr>,
          \<lparr>dep_name = ''lodash'', dep_version = ''4.17.21'',
            dep_type = ''runtime'', dep_manager = ''npm''\<rparr>,
          \<lparr>dep_name = ''flask'', dep_version = ''2.0.1'',
            dep_type = ''runtime'', dep_manager = ''pip''\<rparr>,
          \<lparr>dep_name = ''requests'', dep_version = ''2.31.0'',
            dep_type = ''runtime'', dep_manager = ''pip''\<rparr>]"
proof -
  let ?npm = "[(''express'', ''^4.18.2''), (''lodash'', ''~4.17.21'')]"
  let ?pip = "[(''flask'', ''2.0.1''), (''requests'', ''2.31.0'')]"
  have root: "manifest_disk ''/tmp/repos/r2'' = Some manifest_items"
    by (simp add: manifest_disk_def)
  have npm: "(find_entry ''package.json'' manifest_items = None \<and> ?npm = []) \<or>
       (\<exists>n sz text pj. find_entry ''package.json'' manifest_items = Some (File n sz (Some text)) \<and>
          manifest_parse text = Some pj \<and>
          js_prop pj ''dependencies'' = Some (JObj (map string_entry ?npm)))"
    by (simp add: manifest_items_def manifest_parse_def string_entry_def)
  have wf: "list_all wf_requirement ?pip"
    by (simp add: wf_requirement_def is_name_char_def is_version_char_def)
  have pip: "(find_entry ''requirements.txt'' manifest_items = None \<and> ?pip = []) \<or>
       (\<exists>n sz. find_entry ''requirements.txt'' manifest_items =
                  Some (File n sz (Some (join_lines (map requirement_line ?pip) @
                                         (if True then [newline] else [])))) \<and>
          list_all wf_requirement ?pip)"
    using wf by (simp add: manifest_items_def requirement_line_def)
  from analyzeDependencies_well_formed_manifests
         [of manifest_disk "''/tmp/repos/r2''" manifest_items ?npm manifest_parse ?pip True,
          OF root npm pip]
  show ?thesis
    by (simp add: npm_dependency_def pip_dependency_def)
qed

text \<open>A dependency section whose one version is a range of two alternatives.\<close>

definition range_json_text :: string where
  \<open>range_json_text = ''{"dependencies":{"react":"^17.0.0 || ^18.0.0"}}''\<close>

definition range_parse :: "string \<Rightarrow> json option" where
  "range_parse text =
     (if text = range_json_text
      then Some (JObj [(''dependencies'', JObj [(''react'', JStr ''^17.0.0 || ^18.0.0'')])])
      else None)"

definition range_disk :: disk where
  "range_disk = Map.empty(''/tmp/repos/r3'' \<mapsto> [File ''package.json'' 48 (Some range_json_text)])"

text \<open>
  Claim C7 on the code.  The dependency section \<^verbatim>\<open>{"react": "^17.0.0 || ^18.0.0"}\<close>
  has one key and gives one record, but \<^verbatim>\<open>version.replace('^', '')\<close> replaces the
  first occurrence only: the record's version is \<^verbatim>\<open>17.0.0 || ^18.0.0\<close> and still holds
  a range marker.
\<close>

theorem analyzeDependencies_keeps_second_caret:
  "analyzeDependencies range_parse range_disk ''/tmp/repos/r3'' =
     Inr [\<lparr>dep_name = ''react'', dep_version = ''17.0.0 || ^18.0.0'',
            dep_type = ''runtime'', dep_manager = ''npm''\<rparr>] \<and>
   CHR ''^'' \<in> set ''17.0.0 || ^18.0.0''"
  by (simp add: analyzeDependencies_def package_json_dependencies_def existsSync_def
      readFileSync_def range_disk_def range_parse_def get_property_def npm_record_def)

section \<open>The process environment\<close>

text \<open>
  What the pipeline does not compute itself.  \<open>shell\<close> is the effect of a command
  line handed to \<^verbatim>\<open>child_process.exec\<close> on the disk: the process exits with status
  zero, exits with an error (its diagnostic), or never exits.  \<open>JSON_parse\<close> is the
  runtime's parser (\<open>None\<close>: SyntaxError).  \<open>rm_fails\<close> says whether \<^verbatim>\<open>fs.rmSync\<close>
  raises.  \<open>repoId\<close> is the text built from \<^verbatim>\<open>Date.now()\<close> and \<^verbatim>\<open>Math.random()\<close>,
  \<open>tempDir\<close> the directory \<^verbatim>\<open>temp/repos\<close> of the installation.
\<close>

datatype exec_outcome =
    Exit_ok disk
  | Exit_fail string disk
  | Never_exits

record env =
  shell :: "string \<Rightarrow> disk \<Rightarrow> exec_outcome"
  JSON_parse :: "string \<Rightarrow> json option"
  rm_fails :: bool
  repoId :: string
  tempDir :: string

text \<open>The state the pipeline changes: the disk, and for the record the command
  lines executed and the paths handed to \<^verbatim>\<open>fs.rmSync\<close>, oldest first.\<close>

record world =
  w_disk :: disk
  w_exec_log :: "string list"
  w_rm_log :: "string list"

text \<open>
  \<^verbatim>\<open>util.promisify(exec)(command, options)\<close>.  The result is \<open>None\<close> when the
  promise never settles.  Node kills the child after \<^verbatim>\<open>options.timeout\<close>
  milliseconds and rejects; with no timeout option (the default, 0) it waits for the
  child for ever.
\<close>

definition execPromise ::
  "env \<Rightarrow> string \<Rightarrow> nat option \<Rightarrow> world \<Rightarrow> (error + unit) option \<times> world" where
  "execPromise e command timeout w =
     (let w1 = w\<lparr>w_exec_log := w_exec_log w @ [command]\<rparr>
      in case shell e command (w_disk w) of
           Exit_ok d \<Rightarrow> (Some (Inr ()), w1\<lparr>w_disk := d\<rparr>)
         | Exit_fail diagnostic d \<Rightarrow> (Some (Inl (ExecError diagnostic)), w1\<lparr>w_disk := d\<rparr>)
         | Never_exits \<Rightarrow>
             (case timeout of
                None \<Rightarrow> (None, w1)
              | Some ms \<Rightarrow> (Some (Inl (ExecError ''killed'')), w1)))"

section \<open>Repository Fetcher (repoAnalyzer.js, cloneRepository)\<close>

text \<open>\<^verbatim>\<open>fs.mkdirSync(repoPath, {recursive: true})\<close>.\<close>

definition mkdirSync :: "disk \<Rightarrow> string \<Rightarrow> disk" where
  "mkdirSync d p = (case d p of None \<Rightarrow> d(p \<mapsto> []) | Some items \<Rightarrow> d)"

definition cloneCmd :: "nat \<Rightarrow> string \<Rightarrow> string \<Rightarrow> string \<Rightarrow> string" where
  "cloneCmd depth branch url repoPath =
     ''git clone --depth '' @ show_nat depth @ '' --branch '' @ branch @ '' '' @ url @
     '' '' @ repoPath"

definition fallbackCmd :: "nat \<Rightarrow> string \<Rightarrow> string \<Rightarrow> string" where
  "fallbackCmd depth url repoPath =
     ''git clone --depth '' @ show_nat depth @ '' '' @ url @ '' '' @ repoPath"

definition workspace_path :: "env \<Rightarrow> string" where
  "workspace_path e = tempDir e @ ''/'' @ repoId e"

definition cloneRepository ::
  "env \<Rightarrow> string \<Rightarrow> string \<Rightarrow> nat \<Rightarrow> world \<Rightarrow> (error + string) option \<times> world" where
  "cloneRepository e url branch depth w =
     (let repoPath = workspace_path e;
          w1 = w\<lparr>w_disk := mkdirSync (w_disk w) repoPath\<rparr>
      in case execPromise e (cloneCmd depth branch url repoPath) None w1 of
           (None, w2) \<Rightarrow> (None, w2)
         | (Some (Inr u), w2) \<Rightarrow> (Some (Inr repoPath), w2)
         | (Some (Inl err), w2) \<Rightarrow>
             (case execPromise e (fallbackCmd depth url repoPath) None w2 of
                (None, w3) \<Rightarrow> (None, w3)
              | (Some (Inr u), w3) \<Rightarrow> (Some (Inr repoPath), w3)
              | (Some (Inl err2), w3) \<Rightarrow> (Some (Inl err2), w3)))"

section \<open>Structure Walker, Language and Config Detector (repoAnalyzer.js)\<close>

record repo_structure =
  st_directories :: nat
  st_files :: nat
  st_byType :: "(string \<times> nat) list"
  st_maxDepth :: nat

text \<open>\<^verbatim>\<open>structure.byType[ext] = (structure.byType[ext] || 0) + 1\<close>.\<close>

definition count_ext :: "string \<Rightarrow> (string \<times> nat) list \<Rightarrow> (string \<times> nat) list" where
  "count_ext ext byType =
     AList.update ext (case map_of byType ext of None \<Rightarrow> 1 | Some c \<Rightarrow> c + 1) byType"

text \<open>The closure \<^verbatim>\<open>walk(dir, depth)\<close> of analyzeStructure, at the entries of a
  directory of the given depth; entering a directory raises \<^verbatim>\<open>maxDepth\<close> to its
  depth.\<close>

fun structure_walk :: "nat \<Rightarrow> entry list \<Rightarrow> repo_structure \<Rightarrow> repo_structure"
  and structure_item :: "nat \<Rightarrow> entry \<Rightarrow> repo_structure \<Rightarrow> repo_structure" where
  "structure_walk depth [] s = s"
| "structure_walk depth (item # items) s =
     structure_walk depth items (structure_item depth item s)"
| "structure_item depth (Dir n items) s =
     structure_walk (depth + 1) items
       (s\<lparr>st_directories := st_directories s + 1,
          st_maxDepth := max (st_maxDepth s) (depth + 1)\<rparr>)"
| "structure_item depth (File n sz c) s =
     s\<lparr>st_files := st_files s + 1,
       st_byType := count_ext (toLowerCase (extname n)) (st_byType s)\<rparr>"

definition analyzeStructure :: "disk \<Rightarrow> string \<Rightarrow> error + repo_structure" where
  "analyzeStructure d repoPath =
     (case d repoPath of
        None \<Rightarrow> Inl ENOENT
      | Some items \<Rightarrow>
          Inr (structure_walk 0 items
                 \<lparr>st_directories = 0, st_files = 0, st_byType = [], st_maxDepth = 0\<rparr>))"

definition extensions :: "(string \<times> string) list" where
  "extensions =
     [(''.js'', ''JavaScript''), (''.ts'', ''TypeScript''), (''.py'', ''Python''),
      (''.java'', ''Java''), (''.go'', ''Go''), (''.rs'', ''Rust''), (''.rb'', ''Ruby''),
      (''.php'', ''PHP''), (''.cpp'', ''C++''), (''.c'', ''C''), (''.cs'', ''C#''),
      (''.swift'', ''Swift''), (''.kt'', ''Kotlin''), (''.scala'', ''Scala''),
      (''.html'', ''HTML''), (''.css'', ''CSS''), (''.json'', ''JSON''),
      (''.yaml'', ''YAML''), (''.yml'', ''YAML''), (''.xml'', ''XML''),
      (''.md'', ''Markdown'')]"

text \<open>A \<^verbatim>\<open>Set\<close> in insertion order.\<close>

definition set_add :: "'a \<Rightarrow> 'a list \<Rightarrow> 'a list" where
  "set_add x xs = (if x \<in> set xs then xs else xs @ [x])"

fun languages_walk :: "entry list \<Rightarrow> string list \<Rightarrow> string list"
  and languages_item :: "entry \<Rightarrow> string list \<Rightarrow> string list" where
  "languages_walk [] ls = ls"
| "languages_walk (item # items) ls = languages_walk items (languages_item item ls)"
| "languages_item (Dir n items) ls = languages_walk items ls"
| "languages_item (File n sz c) ls =
     (case map_of extensions (toLowerCase (extname n)) of
        None \<Rightarrow> ls
      | Some language \<Rightarrow> set_add language ls)"

definition detectLanguages :: "disk \<Rightarrow> string \<Rightarrow> error + string list" where
  "detectLanguages d repoPath =
     (case d repoPath of
        None \<Rightarrow> Inl ENOENT
      | Some items \<Rightarrow> Inr (languages_walk items []))"

record config_file =
  cf_name :: string
  cf_path :: string
  cf_size :: nat

definition config_patterns :: "string list" where
  "config_patterns =
     [''package.json'', ''package-lock.json'', ''yarn.lock'',
      ''pom.xml'', ''build.gradle'', ''build.gradle.kts'',
      ''requirements.txt'', ''Pipfile'', ''pyproject.toml'',
      ''Cargo.toml'', ''go.mod'', ''composer.json'',
      ''docker-compose.yml'', ''docker-compose.yaml'',
      ''.dockerignore'', ''.gitignore'', ''.env.example'',
      ''Makefile'', ''Procfile'', ''webpack.config.js'',
      ''tsconfig.json'', ''.eslintrc'', ''.prettierrc'']"

fun config_walk :: "string list \<Rightarrow> entry list \<Rightarrow> config_file list \<Rightarrow> config_file list"
  and config_item :: "string list \<Rightarrow> entry \<Rightarrow> config_file list \<Rightarrow> config_file list" where
  "config_walk rel [] cs = cs"
| "config_walk rel (item # items) cs = config_walk rel items (config_item rel item cs)"
| "config_item rel (Dir n items) cs = config_walk (rel @ [n]) items cs"
| "config_item rel (File n sz c) cs =
     (if n \<in> set config_patterns
      then cs @ [\<lparr>cf_name = n, cf_path = join_path (rel @ [n]), cf_size = sz\<rparr>]
      else cs)"

definition findConfigFiles :: "disk \<Rightarrow> string \<Rightarrow> error + config_file list" where
  "findConfigFiles d repoPath =
     (case d repoPath of
        None \<Rightarrow> Inl ENOENT
      | Some items \<Rightarrow> Inr (config_walk [] items []))"

record file_info =
  fi_name :: string
  fi_path :: string
  fi_isDirectory :: bool
  fi_size :: nat
  fi_extension :: string

fun files_walk :: "string list \<Rightarrow> entry list \<Rightarrow> file_info list \<Rightarrow> file_info list"
  and files_item :: "string list \<Rightarrow> entry \<Rightarrow> file_info list \<Rightarrow> file_info list" where
  "files_walk rel [] fs = fs"
| "files_walk rel (item # items) fs = files_walk rel items (files_item rel item fs)"
| "files_item rel (Dir n items) fs =
     files_walk (rel @ [n]) items
       (fs @ [\<lparr>fi_name = n, fi_path = join_path (rel @ [n]), fi_isDirectory = True,
                fi_size = 0, fi_extension = toLowerCase (extname n)\<rparr>])"
| "files_item rel (File n sz c) fs =
     fs @ [\<lparr>fi_name = n, fi_path = join_path (rel @ [n]), fi_isDirectory = False,
             fi_size = sz, fi_extension = toLowerCase (extname n)\<rparr>]"

definition getFileList :: "disk \<Rightarrow> string \<Rightarrow> error + file_info list" where
  "getFileList d repoPath =
     (case d repoPath of
        None \<Rightarrow> Inl ENOENT
      | Some items \<Rightarrow> Inr (files_walk [] items []))"

section \<open>Repository URL (repoAnalyzer.js, parseRepoUrl)\<close>

record repo_info =
  ri_platform :: string
  ri_owner :: "string option"
  ri_repo :: "string option"
  ri_url :: string

text \<open>The tail \<^verbatim>\<open>([^\/]+)\/([^\/]+)\<close> of the three patterns, matched at the start of
  a string: two non-empty runs without a slash, a slash between them.\<close>

definition match_owner_repo :: "string \<Rightarrow> (string \<times> string) option" where
  "match_owner_repo s =
     (let owner = takeWhile (\<lambda>c. c \<noteq> CHR ''/'') s;
          rest = dropWhile (\<lambda>c. c \<noteq> CHR ''/'') s;
          repo = takeWhile (\<lambda>c. c \<noteq> CHR ''/'') (drop 1 rest)
      in if owner \<noteq> [] \<and> rest \<noteq> [] \<and> repo \<noteq> [] then Some (owner, repo) else None)"

text \<open>\<^verbatim>\<open>url.match(pattern)\<close>: the leftmost position where the host text and then the
  tail match.\<close>

fun match_host :: "string \<Rightarrow> string \<Rightarrow> (string \<times> string) option" where
  "match_host host [] = None"
| "match_host host (c # cs) =
     (case (if prefix host (c # cs) then match_owner_repo (drop (length host) (c # cs))
            else None) of
        Some m \<Rightarrow> Some m
      | None \<Rightarrow> match_host host cs)"

text \<open>\<^verbatim>\<open>repo.replace(/\.git$/, '')\<close>.\<close>

definition strip_git :: "string \<Rightarrow> string" where
  "strip_git repo = (if suffix ''.git'' repo then take (length repo - 4) repo else repo)"

definition platform_patterns :: "(string \<times> string) list" where
  "platform_patterns =
     [(''github'', ''github.com/''), (''gitlab'', ''gitlab.com/''),
      (''bitbucket'', ''bitbucket.org/'')]"

fun first_platform :: "(string \<times> string) list \<Rightarrow> string \<Rightarrow> repo_info" where
  "first_platform [] url =
     \<lparr>ri_platform = ''other'', ri_owner = None, ri_repo = None, ri_url = url\<rparr>"
| "first_platform ((platform, host) # ps) url =
     (case match_host host url of
        Some (owner, repo) \<Rightarrow>
          \<lparr>ri_platform = platform, ri_owner = Some owner, ri_repo = Some (strip_git repo),
           ri_url = url\<rparr>
      | None \<Rightarrow> first_platform ps url)"

definition parseRepoUrl :: "string \<Rightarrow> repo_info" where
  "parseRepoUrl url = first_platform platform_patterns url"

section \<open>Workspace release and the pipeline (repoAnalyzer.js, analyzeRepository)\<close>

text \<open>\<^verbatim>\<open>fs.rmSync(repoPath, {recursive: true, force: true})\<close> inside
  \<^verbatim>\<open>try ... catch\<close>: a failure is logged and swallowed, the directory stays.\<close>

definition cleanupTempDir :: "env \<Rightarrow> string \<Rightarrow> world \<Rightarrow> world" where
  "cleanupTempDir e repoPath w =
     (let w1 = w\<lparr>w_rm_log := w_rm_log w @ [repoPath]\<rparr>
      in if rm_fails e then w1 else w1\<lparr>w_disk := (w_disk w)(repoPath := None)\<rparr>)"

record options =
  opt_branch :: "string option"
  opt_depth :: "nat option"
  opt_includeDependencies :: "bool option"

record analysis_result =
  ar_repository :: repo_info
  ar_branch :: string
  ar_structure :: repo_structure
  ar_languages :: "string list"
  ar_configFiles :: "config_file list"
  ar_dependencies :: "dependency list"
  ar_metrics :: metrics
  ar_files :: "file_info list"

text \<open>The defaults of the destructured options: \<^verbatim>\<open>branch = 'main'\<close>,
  \<^verbatim>\<open>depth = 3\<close>, \<^verbatim>\<open>includeDependencies = true\<close>.\<close>

definition branch_of :: "options \<Rightarrow> string" where
  "branch_of opts = (case opt_branch opts of None \<Rightarrow> ''main'' | Some b \<Rightarrow> b)"

definition depth_of :: "options \<Rightarrow> nat" where
  "depth_of opts = (case opt_depth opts of None \<Rightarrow> 3 | Some n \<Rightarrow> n)"

definition includes_dependencies :: "options \<Rightarrow> bool" where
  "includes_dependencies opts =
     (case opt_includeDependencies opts of None \<Rightarrow> True | Some b \<Rightarrow> b)"

text \<open>Sequencing of steps that may raise: the first error ends the sequence.\<close>

definition bind_result :: "error + 'a \<Rightarrow> ('a \<Rightarrow> error + 'b) \<Rightarrow> error + 'b" where
  "bind_result r f = (case r of Inl err \<Rightarrow> Inl err | Inr v \<Rightarrow> f v)"

text \<open>The statements of analyzeRepository between the clone and the cleanup.\<close>

definition analyze_workspace ::
  "env \<Rightarrow> bool \<Rightarrow> disk \<Rightarrow> string \<Rightarrow>
   error + (repo_structure \<times> string list \<times> config_file list \<times> dependency list \<times> metrics)" where
  "analyze_workspace e includeDependencies d repoPath =
     bind_result (analyzeStructure d repoPath) (\<lambda>structure.
     bind_result (detectLanguages d repoPath) (\<lambda>languages.
     bind_result (findConfigFiles d repoPath) (\<lambda>configFiles.
     bind_result (if includeDependencies then analyzeDependencies (JSON_parse e) d repoPath
                  else Inr []) (\<lambda>dependencies.
     bind_result (calculateMetrics d repoPath) (\<lambda>metrics.
     Inr (structure, languages, configFiles, dependencies, metrics))))))"

text \<open>
  analyzeRepository of the service.  The \<^verbatim>\<open>catch\<close> block logs and re-raises, so an
  error of any step is the error of the call.  The cleanup is the last statement before
  the \<^verbatim>\<open>return\<close>, and the object returned is built after it: its \<^verbatim>\<open>files\<close> field
  calls getFileList on the path just cleaned up.
\<close>

definition analyzeRepository ::
  "env \<Rightarrow> string \<Rightarrow> options \<Rightarrow> world \<Rightarrow> (error + analysis_result) option \<times> world" where
  "analyzeRepository e url opts w =
     (let branch = branch_of opts;
          depth = depth_of opts;
          includeDependencies = includes_dependencies opts;
          repoInfo = parseRepoUrl url
      in case cloneRepository e url branch depth w of
           (None, w1) \<Rightarrow> (None, w1)
         | (Some (Inl err), w1) \<Rightarrow> (Some (Inl err), w1)
         | (Some (Inr repoPath), w1) \<Rightarrow>
             (case analyze_workspace e includeDependencies (w_disk w1) repoPath of
                Inl err \<Rightarrow> (Some (Inl err), w1)
              | Inr (structure, languages, configFiles, dependencies, metrics) \<Rightarrow>
                  (let w2 = cleanupTempDir e repoPath w1
                   in case getFileList (w_disk w2) repoPath of
                        Inl err \<Rightarrow> (Some (Inl err), w2)
                      | Inr files \<Rightarrow>
                          (Some (Inr \<lparr>ar_repository = repoInfo, ar_branch = branch,
                                       ar_structure = structure, ar_languages = languages,
                                       ar_configFiles = configFiles,
                                       ar_dependencies = dependencies, ar_metrics = metrics,
                                       ar_files = files\<rparr>), w2))))"

section \<open>Properties of the Repository Fetcher\<close>

lemma execPromise_log:
  "w_exec_log (snd (execPromise e command timeout w)) = w_exec_log w @ [command]"
  by (simp add: execPromise_def Let_def split: exec_outcome.splits option.splits)

text \<open>
  Claim C10.  The first command line cloneRepository executes is the template
  \<^verbatim>\<open>git clone --depth <depth> --branch <branch> <url> <path>\<close> with the caller's
  branch and url concatenated in as they are: both occur in it verbatim, whatever
  characters they hold.  At most one more command follows it.
\<close>

theorem cloneRepository_command_verbatim:
  "\<exists>rest. w_exec_log (snd (cloneRepository e url branch depth w)) =
            w_exec_log w @ cloneCmd depth branch url (workspace_path e) # rest \<and>
          length rest \<le> 1 \<and>
          cloneCmd depth branch url (workspace_path e) =
            ''git clone --depth '' @ show_nat depth @ '' --branch '' @ branch @ '' '' @ url @
            '' '' @ workspace_path e \<and>
          sublist url (cloneCmd depth branch url (workspace_path e)) \<and>
          sublist branch (cloneCmd depth branch url (workspace_path e))"
proof -
  let ?c = "cloneCmd depth branch url (workspace_path e)"
  have url: "sublist url ?c"
    unfolding cloneCmd_def sublist_def
    by (rule exI [of _ "''git clone --depth '' @ show_nat depth @ '' --branch '' @ branch @ '' ''"],
        rule exI [of _ "'' '' @ workspace_path e"]) simp
  have branch: "sublist branch ?c"
    unfolding cloneCmd_def sublist_def
    by (rule exI [of _ "''git clone --depth '' @ show_nat depth @ '' --branch ''"],
        rule exI [of _ "'' '' @ url @ '' '' @ workspace_path e"]) simp
  have log: "\<exists>rest. w_exec_log (snd (cloneRepository e url branch depth w)) =
               w_exec_log w @ ?c # rest \<and> length rest \<le> 1"
    by (simp add: cloneRepository_def execPromise_def Let_def
        split: exec_outcome.splits option.splits)
  from log url branch show ?thesis by (auto simp: cloneCmd_def)
qed

text \<open>A url that carries a second shell command.\<close>

definition failing_env :: env where
  "failing_env =
     \<lparr>shell = (\<lambda>command d. Exit_fail ''fatal: repository not found'' d),
      JSON_parse = (\<lambda>t. None), rm_fails = False,
      repoId = ''1700000000000_k3j9x2a1b'', tempDir = ''/srv/temp/repos''\<rparr>"

definition world0 :: world where
  "world0 = \<lparr>w_disk = Map.empty, w_exec_log = [], w_rm_log = []\<rparr>"

lemma show_nat_3: "show_nat 3 = ''3''"
  by code_simp

theorem cloneRepository_command_witness:
  "hd (w_exec_log (snd (cloneRepository failing_env
         ''https://h.test/r.git; touch /tmp/x'' ''main'' 3 world0))) =
     ''git clone --depth 3 --branch main https://h.test/r.git; touch /tmp/x /srv/temp/repos/1700000000000_k3j9x2a1b''"
  using cloneRepository_command_verbatim
          [of failing_env "''https://h.test/r.git; touch /tmp/x''" "''main''" 3 world0]
  by (auto simp: show_nat_3 workspace_path_def failing_env_def world0_def)

text \<open>
  Claim C6, as the code has it.  \<^verbatim>\<open>exec\<close> is called without a timeout, so the clone
  returns exactly when every command it runs exits.  The clone command runs first; the
  fallback command, which has no branch qualifier, runs exactly when the clone command
  exits with an error, whatever the branch; nothing else runs.  The workspace path is
  returned exactly when the clone command or, after its failure, the fallback command
  exits with status zero; an error is raised exactly when both fail, and it is the
  error of the fallback command.
\<close>

theorem cloneRepository_single_retry:
  "(let p = workspace_path e;
        c1 = cloneCmd depth branch url p;
        c2 = fallbackCmd depth url p;
        d0 = mkdirSync (w_disk w) p;
        r = fst (cloneRepository e url branch depth w);
        new = drop (length (w_exec_log w)) (w_exec_log (snd (cloneRepository e url branch depth w)))
    in (new = [c1] \<or> new = [c1, c2]) \<and>
       (new = [c1, c2] \<longleftrightarrow> (\<exists>m d1. shell e c1 d0 = Exit_fail m d1)) \<and>
       (r = Some (Inr p) \<longleftrightarrow>
          ((\<exists>d1. shell e c1 d0 = Exit_ok d1) \<or>
           (\<exists>m1 d1 d2. shell e c1 d0 = Exit_fail m1 d1 \<and> shell e c2 d1 = Exit_ok d2))) \<and>
       (\<forall>q. r = Some (Inr q) \<longrightarrow> q = p) \<and>
       (\<forall>err. r = Some (Inl err) \<longleftrightarrow>
          (\<exists>m1 d1 m2 d2. shell e c1 d0 = Exit_fail m1 d1 \<and> shell e c2 d1 = Exit_fail m2 d2 \<and>
             err = ExecError m2)) \<and>
       (r = None \<longleftrightarrow>
          (shell e c1 d0 = Never_exits \<or>
           (\<exists>m1 d1. shell e c1 d0 = Exit_fail m1 d1 \<and> shell e c2 d1 = Never_exits))))"
  by (auto simp: cloneRepository_def execPromise_def Let_def
      split: exec_outcome.splits option.splits)

text \<open>A first attempt that fails on the branch and a fallback that succeeds; and
  a repository on which both commands fail.\<close>

definition retry_env :: env where
  "retry_env =
     \<lparr>shell = (\<lambda>command d.
         if command =
            ''git clone --depth 3 --branch nosuch https://github.com/acme/widgets /srv/temp/repos/1700000000000_k3j9x2a1b''
         then Exit_fail ''fatal: Remote branch nosuch not found in upstream origin'' d
         else Exit_ok (d(''/srv/temp/repos/1700000000000_k3j9x2a1b'' \<mapsto> sample_items))),
      JSON_parse = (\<lambda>t. None), rm_fails = False,
      repoId = ''1700000000000_k3j9x2a1b'', tempDir = ''/srv/temp/repos''\<rparr>"

theorem cloneRepository_single_retry_witness:
  "fst (cloneRepository retry_env ''https://github.com/acme/widgets'' ''nosuch'' 3 world0) =
     Some (Inr ''/srv/temp/repos/1700000000000_k3j9x2a1b'') \<and>
   w_exec_log (snd (cloneRepository retry_env ''https://github.com/acme/widgets'' ''nosuch'' 3
                      world0)) =
     [''git clone --depth 3 --branch nosuch https://github.com/acme/widgets /srv/temp/repos/1700000000000_k3j9x2a1b'',
      ''git clone --depth 3 https://github.com/acme/widgets /srv/temp/repos/1700000000000_k3j9x2a1b''] \<and>
   fst (cloneRepository failing_env ''https://github.com/acme/widgets'' ''main'' 3 world0) =
     Some (Inl (ExecError ''fatal: repository not found''))"
  using cloneRepository_single_retry
          [of retry_env 3 "''nosuch''" "''https://github.com/acme/widgets''" world0]
    cloneRepository_single_retry
          [of failing_env 3 "''main''" "''https://github.com/acme/widgets''" world0]
  by (simp add: cloneRepository_def execPromise_def cloneCmd_def fallbackCmd_def
      workspace_path_def retry_env_def failing_env_def world0_def show_nat_3 mkdirSync_def
      Let_def)

text \<open>A git process that never exits: the clone never returns.\<close>

definition hanging_env :: env where
  "hanging_env =
     \<lparr>shell = (\<lambda>command d. Never_exits),
      JSON_parse = (\<lambda>t. None), rm_fails = False,
      repoId = ''1700000000000_k3j9x2a1b'', tempDir = ''/srv/temp/repos''\<rparr>"

theorem cloneRepository_waits_for_ever:
  "fst (cloneRepository hanging_env ''https://github.com/acme/widgets'' ''main'' 3 world0) = None"
  by (simp add: cloneRepository_def execPromise_def hanging_env_def Let_def)

section \<open>Enrichment Adapter (services/ai/openaiService.js, in unnamed/part_010)\<close>

text \<open>
  The outcome of \<^verbatim>\<open>client.chat.completions.create\<close>: the promise rejects (timeout,
  service unavailable, any client error), or resolves with a completion, of which the
  code reads \<^verbatim>\<open>choices[i].message.content\<close>; the client library types that content as
  a string or \<^verbatim>\<open>null\<close> (\<open>None\<close>).  Building the prompt reads only the lengths and
  texts of the analysis result and does not raise.
\<close>

datatype ai_outcome =
    Rejects
  | Resolves "string option list"

definition getMockInsights :: json where
  "getMockInsights =
     JObj [(''architecture'', JStr ''Monolithic application structure''),
           (''quality'', JStr ''Good code organization, needs more tests''),
           (''performance'',
              JArr [JStr ''Add caching layer'', JStr ''Optimize database queries'',
                    JStr ''Implement CDN for static assets'']),
           (''security'',
              JArr [JStr ''Update dependencies'', JStr ''Add input validation'',
                    JStr ''Implement rate limiting'']),
           (''devops'',
              JArr [JStr ''Add Docker support'', JStr ''Create CI/CD pipeline'',
                    JStr ''Implement monitoring''])]"

text \<open>parseAIResponse has a \<^verbatim>\<open>catch\<close> of its own: text that is not JSON comes back
  wrapped as \<^verbatim>\<open>{raw: content}\<close>.  \<^verbatim>\<open>JSON.parse(null)\<close> is \<^verbatim>\<open>null\<close>.\<close>

definition parseAIResponse :: "(string \<Rightarrow> json option) \<Rightarrow> string option \<Rightarrow> json" where
  "parseAIResponse parse content =
     (case content of
        None \<Rightarrow> JNull
      | Some s \<Rightarrow> (case parse s of Some v \<Rightarrow> v | None \<Rightarrow> JObj [(''raw'', JStr s)]))"

text \<open>getRepositoryInsights: whatever raises inside the \<^verbatim>\<open>try\<close> (the call itself, or
  reading \<^verbatim>\<open>.message\<close> of a missing first choice) gives the mock insights.\<close>

definition getRepositoryInsights :: "(string \<Rightarrow> json option) \<Rightarrow> ai_outcome \<Rightarrow> json" where
  "getRepositoryInsights parse outcome =
     (case outcome of
        Rejects \<Rightarrow> getMockInsights
      | Resolves [] \<Rightarrow> getMockInsights
      | Resolves (content # others) \<Rightarrow> parseAIResponse parse content)"

fun object_keys :: "json \<Rightarrow> string list" where
  "object_keys (JObj kvs) = map fst kvs"
| "object_keys v = []"

section \<open>Analysis Record Store (models/Analysis.js, in backend/models/User.js)\<close>

text \<open>\<^verbatim>\<open>a?.k\<close> and \<^verbatim>\<open>a || b\<close> on values that may be \<^verbatim>\<open>undefined\<close>.\<close>

fun chain :: "json option \<Rightarrow> string \<Rightarrow> json option" where
  "chain None k = None"
| "chain (Some JNull) k = None"
| "chain (Some v) k = js_prop v k"

definition or_else :: "json option \<Rightarrow> json \<Rightarrow> json" where
  "or_else v dflt = (if truthy v then the v else dflt)"

text \<open>
  A document of the Analysis schema.  \<^verbatim>\<open>analysisData\<close> is of type Mixed with default
  \<^verbatim>\<open>{}\<close>; \<^verbatim>\<open>metrics\<close> is a nested path, which reads as an object even when nothing
  was stored in it; the timestamps are set by the first save.
\<close>

record analysis_doc =
  doc_userId :: "nat option"
  doc_repositoryUrl :: string
  doc_branch :: string
  doc_status :: string
  doc_analysisData :: json
  doc_metrics :: json
  doc_error :: "json option"
  doc_createdAt :: "nat option"
  doc_updatedAt :: "nat option"

definition status_enum :: "string list" where
  "status_enum = [''pending'', ''analyzing'', ''completed'', ''failed'']"

text \<open>\<^verbatim>\<open>new Analysis({})\<close>: the schema defaults.\<close>

definition new_Analysis :: analysis_doc where
  "new_Analysis =
     \<lparr>doc_userId = None, doc_repositoryUrl = [], doc_branch = ''main'',
      doc_status = ''pending'', doc_analysisData = JObj [], doc_metrics = JObj [],
      doc_error = None, doc_createdAt = None, doc_updatedAt = None\<rparr>"

text \<open>The \<^verbatim>\<open>trim\<close> setter of \<^verbatim>\<open>repositoryUrl\<close>, on ASCII white space.\<close>

definition is_space :: "char \<Rightarrow> bool" where
  "is_space c = (c \<in> set [CHR '' '', CHR 0x09, CHR 0x0A, CHR 0x0B, CHR 0x0C, CHR 0x0D])"

definition trim :: "string \<Rightarrow> string" where
  "trim s = rev (dropWhile is_space (rev (dropWhile is_space s)))"

text \<open>The store: the documents by \<^verbatim>\<open>_id\<close>, whether the database answers, and its
  clock.\<close>

record store =
  st_docs :: "nat \<rightharpoonup> analysis_doc"
  st_available :: bool
  st_now :: nat

text \<open>Schema validation run by \<^verbatim>\<open>save\<close>: the required paths and the enum of
  \<^verbatim>\<open>status\<close>.\<close>

definition validate :: "analysis_doc \<Rightarrow> bool" where
  "validate doc =
     (doc_userId doc \<noteq> None \<and> doc_repositoryUrl doc \<noteq> [] \<and>
      doc_status doc \<in> set status_enum)"

definition stamp :: "nat \<Rightarrow> analysis_doc \<Rightarrow> analysis_doc" where
  "stamp now doc =
     doc\<lparr>doc_createdAt := (case doc_createdAt doc of None \<Rightarrow> Some now | Some t \<Rightarrow> Some t),
         doc_updatedAt := Some now\<rparr>"

text \<open>\<^verbatim>\<open>document.save()\<close> of the document with the given \<^verbatim>\<open>_id\<close>.\<close>

definition save :: "nat \<Rightarrow> analysis_doc \<Rightarrow> store \<Rightarrow> error + store" where
  "save i doc s =
     (if \<not> validate doc then Inl ValidationError
      else if \<not> st_available s then Inl StoreError
      else Inr (s\<lparr>st_docs := (st_docs s)(i \<mapsto> stamp (st_now s) doc)\<rparr>))"





text \<open>
  \<^verbatim>\<open>Analysis.findOne({_id: analysisId, userId})\<close>.  The \<^verbatim>\<open>_id\<close> of the filter is
  the text of the route parameter, which the route does not validate; the library casts
  it to an ObjectId before the query is sent and raises a CastError when it cannot
  (\<open>castObjectId\<close>, \<open>None\<close> for a text that does not cast).  The document found comes
  with its \<^verbatim>\<open>_id\<close>.
\<close>

definition findOne ::
  "(string \<Rightarrow> nat option) \<Rightarrow> store \<Rightarrow> string \<Rightarrow> nat \<Rightarrow>
   error + (nat \<times> analysis_doc) option" where
  "findOne castObjectId s analysisId userId =
     (case castObjectId analysisId of
        None \<Rightarrow> Inl CastError
      | Some i \<Rightarrow>
          (if \<not> st_available s then Inl StoreError
           else Inr (case st_docs s i of
                       None \<Rightarrow> None
                     | Some doc \<Rightarrow>
                         if doc_userId doc = Some userId then Some (i, doc) else None)))"

text \<open>The cast of a text of 24 hexadecimal digits, the printed form of an ObjectId,
  to the number it denotes; a text of another length or with another character does
  not cast.\<close>

definition hex_digit :: "char \<Rightarrow> nat option" where
  "hex_digit c =
     (let n = (of_char c :: nat)
      in if 48 \<le> n \<and> n \<le> 57 then Some (n - 48)
         else if 97 \<le> n \<and> n \<le> 102 then Some (n - 87)
         else if 65 \<le> n \<and> n \<le> 70 then Some (n - 55)
         else None)"

fun hex_value :: "string \<Rightarrow> nat \<Rightarrow> nat option" where
  "hex_value [] acc = Some acc"
| "hex_value (c # cs) acc =
     (case hex_digit c of None \<Rightarrow> None | Some d \<Rightarrow> hex_value cs (16 * acc + d))"

definition hex_ObjectId :: "string \<Rightarrow> nat option" where
  "hex_ObjectId t = (if length t = 24 then hex_value t 0 else None)"

section \<open>The analysis result as a value\<close>

text \<open>The object analyzeRepository returns, as it is stored in \<^verbatim>\<open>analysisData\<close>.
  A field that is \<^verbatim>\<open>undefined\<close> is left out.\<close>

definition opt_field :: "string \<Rightarrow> json option \<Rightarrow> (string \<times> json) list" where
  "opt_field k v = (case v of None \<Rightarrow> [] | Some j \<Rightarrow> [(k, j)])"

definition json_nat :: "nat \<Rightarrow> json" where
  "json_nat n = JNum (int n)"

definition json_of_repo_info :: "repo_info \<Rightarrow> json" where
  "json_of_repo_info r =
     JObj ([(''platform'', JStr (ri_platform r))] @
           opt_field ''owner'' (map_option JStr (ri_owner r)) @
           opt_field ''repo'' (map_option JStr (ri_repo r)) @
           [(''url'', JStr (ri_url r))])"

definition json_of_structure :: "repo_structure \<Rightarrow> json" where
  "json_of_structure s =
     JObj [(''directories'', json_nat (st_directories s)),
           (''files'', json_nat (st_files s)),
           (''byType'', JObj (map (\<lambda>(ext, n). (ext, json_nat n)) (st_byType s))),
           (''maxDepth'', json_nat (st_maxDepth s))]"

definition json_of_config_file :: "config_file \<Rightarrow> json" where
  "json_of_config_file c =
     JObj [(''name'', JStr (cf_name c)), (''path'', JStr (cf_path c)),
           (''size'', json_nat (cf_size c))]"

definition json_of_dependency :: "dependency \<Rightarrow> json" where
  "json_of_dependency r =
     JObj [(''name'', JStr (dep_name r)), (''version'', JStr (dep_version r)),
           (''type'', JStr (dep_type r)), (''manager'', JStr (dep_manager r))]"

definition json_of_metrics :: "metrics \<Rightarrow> json" where
  "json_of_metrics m =
     JObj [(''totalLines'', json_nat (totalLines m)),
           (''totalFiles'', json_nat (totalFiles m)),
           (''avgLinesPerFile'', json_nat (avgLinesPerFile m)),
           (''largestFile'',
              JObj [(''name'', JStr (lf_name (largestFile m))),
                    (''lines'', json_nat (lf_lines (largestFile m)))])]"

definition json_of_file_info :: "file_info \<Rightarrow> json" where
  "json_of_file_info f =
     JObj [(''name'', JStr (fi_name f)), (''path'', JStr (fi_path f)),
           (''isDirectory'', JBool (fi_isDirectory f)), (''size'', json_nat (fi_size f)),
           (''extension'', JStr (fi_extension f))]"

definition result_fields :: "analysis_result \<Rightarrow> (string \<times> json) list" where
  "result_fields r =
     [(''repository'', json_of_repo_info (ar_repository r)),
      (''branch'', JStr (ar_branch r)),
      (''structure'', json_of_structure (ar_structure r)),
      (''languages'', JArr (map JStr (ar_languages r))),
      (''configFiles'', JArr (map json_of_config_file (ar_configFiles r))),
      (''dependencies'', JArr (map json_of_dependency (ar_dependencies r))),
      (''metrics'', json_of_metrics (ar_metrics r)),
      (''files'', JArr (map json_of_file_info (ar_files r)))]"

section \<open>Analyze controller (controllers/analyzeController.js)\<close>

text \<open>
  calculateQualityScore.  The two lengths are numbers when \<^verbatim>\<open>recommendations\<close> and
  \<^verbatim>\<open>issues\<close> are arrays or strings; a length of any other kind is left to the
  runtime's coercion, and the score is then recorded as \<open>None\<close>.
\<close>

definition length_or_zero :: "json option \<Rightarrow> int option" where
  "length_or_zero v =
     (case or_else (chain v ''length'') (JNum 0) of JNum n \<Rightarrow> Some n | _ \<Rightarrow> None)"

definition calculateQualityScore :: "json \<Rightarrow> int option" where
  "calculateQualityScore aiInsights =
     (case (length_or_zero (js_prop aiInsights ''recommendations''),
            length_or_zero (js_prop aiInsights ''issues'')) of
        (Some improvements, Some issues) \<Rightarrow>
          Some (max 0 (min 100 (80 - issues * 5 + improvements * 2)))
      | _ \<Rightarrow> None)"

text \<open>generateSummary: \<^verbatim>\<open>aiInsights.complexity\<close> raises when the insights are
  \<^verbatim>\<open>null\<close>.\<close>

definition generateSummary :: "analysis_result \<Rightarrow> json \<Rightarrow> error + json" where
  "generateSummary analysisResult aiInsights =
     (case get_property aiInsights ''complexity'' of
        Inl err \<Rightarrow> Inl err
      | Inr complexity \<Rightarrow>
          Inr (JObj ([(''totalFiles'', json_nat (length (ar_files analysisResult))),
                      (''totalLines'', json_nat (totalLines (ar_metrics analysisResult))),
                      (''languages'', JArr (map JStr (ar_languages analysisResult))),
                      (''dependencies'', json_nat (length (ar_dependencies analysisResult))),
                      (''complexity'', or_else complexity (JStr ''medium''))] @
                     opt_field ''qualityScore''
                       (map_option JNum (calculateQualityScore aiInsights)))))"

text \<open>calculateMetrics of the controller, on the result it has just combined.\<close>

definition AnalyzeController_calculateMetrics :: "nat \<Rightarrow> analysis_result \<Rightarrow> json" where
  "AnalyzeController_calculateMetrics rnd r =
     JObj [(''analysisDuration'', JNum (int rnd + 60)),
           (''totalLines'', json_nat (totalLines (ar_metrics r))),
           (''totalFiles'', json_nat (length (ar_files r))),
           (''languageDistribution'', JArr (map JStr (ar_languages r))),
           (''dependencyCount'', json_nat (length (ar_dependencies r)))]"

text \<open>\<^verbatim>\<open>error.message\<close>.\<close>

fun error_message :: "error \<Rightarrow> string" where
  "error_message ENOENT = ''ENOENT: no such file or directory''"
| "error_message EISDIR = ''EISDIR: illegal operation on a directory''"
| "error_message ReadError = ''EACCES: permission denied''"
| "error_message SyntaxError = ''Unexpected token in JSON''"
| "error_message TypeError = ''Cannot read properties''"
| "error_message (ExecError diagnostic) = diagnostic"
| "error_message StoreError = ''database unavailable''"
| "error_message ValidationError = ''Analysis validation failed''"
| "error_message CastError = ''Cast to ObjectId failed''"

datatype response = Response nat json

record request =
  req_url :: string
  req_branch :: "string option"
  req_depth :: "nat option"
  req_includeDependencies :: "bool option"
  req_user :: "nat option"

text \<open>The options the controller passes to the service, with the defaults of its own
  destructuring of the request body.\<close>

definition request_options :: "request \<Rightarrow> options" where
  "request_options req =
     \<lparr>opt_branch = Some (case req_branch req of None \<Rightarrow> ''main'' | Some b \<Rightarrow> b),
      opt_depth = Some (case req_depth req of None \<Rightarrow> 3 | Some n \<Rightarrow> n),
      opt_includeDependencies =
        Some (case req_includeDependencies req of None \<Rightarrow> True | Some b \<Rightarrow> b)\<rparr>"

text \<open>What the controller is given besides the request: the pipeline's environment,
  the outcome of the inference call, the random number of its metrics, and the fresh
  \<^verbatim>\<open>_id\<close>s of the two documents it may construct.\<close>

record controller_env =
  ce_env :: env
  ce_openai :: ai_outcome
  ce_random :: nat
  ce_analysis_id :: nat
  ce_failed_id :: nat

record system =
  sys_world :: world
  sys_store :: store

text \<open>The \<^verbatim>\<open>try\<close> block after the service call returned a result, up to the save:
  the document to respond with, or the error raised.\<close>

definition complete_analysis ::
  "controller_env \<Rightarrow> request \<Rightarrow> nat \<Rightarrow> analysis_result \<Rightarrow> store \<Rightarrow>
   error + (json \<times> json \<times> store)" where
  "complete_analysis ce req userId analysisResult s =
     (let aiInsights = getRepositoryInsights (JSON_parse (ce_env ce)) (ce_openai ce)
      in case generateSummary analysisResult aiInsights of
           Inl err \<Rightarrow> Inl err
         | Inr summary \<Rightarrow>
             (let fullAnalysis =
                    JObj (result_fields analysisResult @
                          [(''aiInsights'', aiInsights), (''summary'', summary)]);
                  analysis =
                    new_Analysis\<lparr>doc_userId := Some userId,
                                doc_repositoryUrl := trim (req_url req),
                                doc_branch :=
                                  (case req_branch req of None \<Rightarrow> ''main'' | Some b \<Rightarrow> b),
                                doc_analysisData := fullAnalysis,
                                doc_status := ''completed'',
                                doc_metrics :=
                                  AnalyzeController_calculateMetrics (ce_random ce)
                                    analysisResult\<rparr>
              in case save (ce_analysis_id ce) analysis s of
                   Inl err \<Rightarrow> Inl err
                 | Inr s1 \<Rightarrow> Inr (summary, aiInsights, s1)))"

definition success_response ::
  "controller_env \<Rightarrow> request \<Rightarrow> json \<Rightarrow> json \<Rightarrow> store \<Rightarrow> response" where
  "success_response ce req summary aiInsights s =
     (let saved = st_docs s (ce_analysis_id ce)
      in Response 200
           (JObj [(''success'', JBool True),
                  (''data'',
                     JObj ([(''analysisId'', json_nat (ce_analysis_id ce)),
                            (''repository'', JStr (req_url req)),
                            (''summary'', summary)] @
                           opt_field ''insights'' (chain (Some aiInsights) ''recommendations'') @
                           opt_field ''metrics'' (map_option doc_metrics saved) @
                           opt_field ''createdAt''
                             (map_option json_nat (Option.bind saved doc_createdAt))))]))"

text \<open>The \<^verbatim>\<open>catch\<close> block: a failed record is saved when the request has a url;
  an error of that save leaves the controller.\<close>

definition fail_analysis ::
  "controller_env \<Rightarrow> request \<Rightarrow> error \<Rightarrow> store \<Rightarrow> (error + response) \<times> store" where
  "fail_analysis ce req err s =
     (let reply = Response 500
                    (JObj [(''success'', JBool False),
                           (''error'', JStr ''Repository analysis failed''),
                           (''details'', JStr (error_message err))])
      in if req_url req \<noteq> [] then
           (let failedAnalysis =
                  new_Analysis\<lparr>doc_userId := req_user req,
                              doc_repositoryUrl := trim (req_url req),
                              doc_status := ''failed'',
                              doc_error := Some (JStr (error_message err))\<rparr>
            in case save (ce_failed_id ce) failedAnalysis s of
                 Inl save_err \<Rightarrow> (Inl save_err, s)
               | Inr s1 \<Rightarrow> (Inr reply, s1))
         else (Inr reply, s))"

text \<open>
  AnalyzeController.analyzeRepository.  \<open>None\<close>: the handler never responds.  The
  events emitted on the socket are not part of the state.
\<close>

definition AnalyzeController_analyzeRepository ::
  "controller_env \<Rightarrow> request \<Rightarrow> system \<Rightarrow> (error + response) option \<times> system" where
  "AnalyzeController_analyzeRepository ce req sys =
     (case req_user req of
        None \<Rightarrow>
          (case fail_analysis ce req TypeError (sys_store sys) of
             (r, s1) \<Rightarrow> (Some r, sys\<lparr>sys_store := s1\<rparr>))
      | Some userId \<Rightarrow>
          (case analyzeRepository (ce_env ce) (req_url req) (request_options req)
                  (sys_world sys) of
             (None, w1) \<Rightarrow> (None, sys\<lparr>sys_world := w1\<rparr>)
           | (Some (Inl err), w1) \<Rightarrow>
               (case fail_analysis ce req err (sys_store sys) of
                  (r, s1) \<Rightarrow> (Some r, \<lparr>sys_world = w1, sys_store = s1\<rparr>))
           | (Some (Inr analysisResult), w1) \<Rightarrow>
               (case complete_analysis ce req userId analysisResult (sys_store sys) of
                  Inl err \<Rightarrow>
                    (case fail_analysis ce req err (sys_store sys) of
                       (r, s1) \<Rightarrow> (Some r, \<lparr>sys_world = w1, sys_store = s1\<rparr>))
                | Inr (summary, aiInsights, s1) \<Rightarrow>
                    (Some (Inr (success_response ce req summary aiInsights s1)),
                     \<lparr>sys_world = w1, sys_store = s1\<rparr>))))"

text \<open>getAnalysisById.  The route parameter and the query parameters arrive as
  strings; a query parameter that is absent takes the default \<^verbatim>\<open>false\<close>.\<close>

record get_request =
  gr_analysisId :: string
  gr_includeFiles :: "string option"
  gr_includeMetrics :: "string option"
  gr_user :: "nat option"

definition query_flag :: "string option \<Rightarrow> bool" where
  "query_flag q = (case q of None \<Rightarrow> False | Some v \<Rightarrow> v \<noteq> [])"

definition not_found :: response where
  "not_found =
     Response 404 (JObj [(''success'', JBool False), (''error'', JStr ''Analysis not found'')])"

definition fetch_failed :: response where
  "fetch_failed =
     Response 500
       (JObj [(''success'', JBool False), (''error'', JStr ''Failed to fetch analysis'')])"

definition analysis_response :: "get_request \<Rightarrow> nat \<Rightarrow> analysis_doc \<Rightarrow> response" where
  "analysis_response req analysis_id analysis =
     (let analysisData = Some (doc_analysisData analysis)
      in Response 200
           (JObj [(''success'', JBool True),
                  (''data'',
                     JObj ([(''analysisId'', json_nat analysis_id),
                            (''repositoryUrl'', JStr (doc_repositoryUrl analysis)),
                            (''branch'', JStr (doc_branch analysis)),
                            (''status'', JStr (doc_status analysis))] @
                           opt_field ''createdAt'' (map_option json_nat (doc_createdAt analysis)) @
                           opt_field ''updatedAt'' (map_option json_nat (doc_updatedAt analysis)) @
                           [(''summary'', or_else (chain analysisData ''summary'') (JObj [])),
                            (''insights'',
                               or_else (chain (chain analysisData ''aiInsights'')
                                          ''recommendations'') (JArr []))] @
                           (if query_flag (gr_includeFiles req) \<and>
                               truthy (chain analysisData ''files'')
                            then opt_field ''files'' (chain analysisData ''files'') else []) @
                           (if query_flag (gr_includeMetrics req) \<and>
                               truthy (Some (doc_metrics analysis))
                            then [(''metrics'', doc_metrics analysis)] else []) @
                           (if truthy (chain analysisData ''structure'')
                            then opt_field ''structure'' (chain analysisData ''structure'')
                            else [])))]))"

definition getAnalysisById ::
  "(string \<Rightarrow> nat option) \<Rightarrow> store \<Rightarrow> get_request \<Rightarrow> response" where
  "getAnalysisById castObjectId s req =
     (case gr_user req of
        None \<Rightarrow> fetch_failed
      | Some userId \<Rightarrow>
          (case findOne castObjectId s (gr_analysisId req) userId of
             Inl err \<Rightarrow> fetch_failed
           | Inr None \<Rightarrow> not_found
           | Inr (Some (analysis_id, analysis)) \<Rightarrow>
               analysis_response req analysis_id analysis))"

section \<open>Properties of the record store and of reads\<close>

text \<open>
  Claim C9, as the code has it.  getAnalysisById answers 200 only with a record whose
  stored owner is the caller.  A request for an existing record of another owner gets
  the very response a request for a well-formed identifier with no record gets, and
  with the store answering and an authenticated caller that response is the 404
  "Analysis not found".  An identifier that does not cast to an ObjectId is answered
  with the 500 of the handler's \<^verbatim>\<open>catch\<close>.
\<close>

theorem getAnalysisById_owner_only:
  "(\<forall>body. getAnalysisById castObjectId s req = Response 200 body \<longrightarrow>
      (\<exists>userId i doc. gr_user req = Some userId \<and>
         castObjectId (gr_analysisId req) = Some i \<and> st_docs s i = Some doc \<and>
         doc_userId doc = Some userId \<and> Response 200 body = analysis_response req i doc)) \<and>
   (\<forall>i doc other j. castObjectId (gr_analysisId req) = Some i \<and> st_docs s i = Some doc \<and>
      doc_userId doc \<noteq> gr_user req \<and> castObjectId other = Some j \<and> st_docs s j = None \<longrightarrow>
        getAnalysisById castObjectId s req =
          getAnalysisById castObjectId s (req\<lparr>gr_analysisId := other\<rparr>) \<and>
        (st_available s \<and> gr_user req \<noteq> None \<longrightarrow>
           getAnalysisById castObjectId s req = not_found)) \<and>
   (\<forall>other. castObjectId other = None \<longrightarrow>
      getAnalysisById castObjectId s (req\<lparr>gr_analysisId := other\<rparr>) = fetch_failed)"
proof (intro conjI allI impI)
  fix body
  assume ok: "getAnalysisById castObjectId s req = Response 200 body"
  show "\<exists>userId i doc. gr_user req = Some userId \<and>
         castObjectId (gr_analysisId req) = Some i \<and> st_docs s i = Some doc \<and>
         doc_userId doc = Some userId \<and> Response 200 body = analysis_response req i doc"
  proof (cases "gr_user req")
    case None
    with ok show ?thesis by (simp add: getAnalysisById_def fetch_failed_def)
  next
    case (Some userId)
    show ?thesis
    proof (cases "findOne castObjectId s (gr_analysisId req) userId")
      case (Inl err)
      with ok Some show ?thesis by (simp add: getAnalysisById_def fetch_failed_def)
    next
      case (Inr found)
      show ?thesis
      proof (cases found)
        case None
        with ok Some Inr show ?thesis by (simp add: getAnalysisById_def not_found_def)
      next
        case hit: (Some pair)
        obtain i doc where pair: "pair = (i, doc)" by (cases pair)
        from Inr hit pair
        have "castObjectId (gr_analysisId req) = Some i \<and> st_docs s i = Some doc \<and>
              doc_userId doc = Some userId"
          by (auto simp: findOne_def split: if_splits option.splits)
        moreover have "Response 200 body = analysis_response req i doc"
          using ok Some Inr hit pair by (simp add: getAnalysisById_def)
        ultimately show ?thesis using Some by simp
      qed
    qed
  qed
next
  fix i doc other j
  assume h: "castObjectId (gr_analysisId req) = Some i \<and> st_docs s i = Some doc \<and>
      doc_userId doc \<noteq> gr_user req \<and> castObjectId other = Some j \<and> st_docs s j = None"
  then show "getAnalysisById castObjectId s req =
          getAnalysisById castObjectId s (req\<lparr>gr_analysisId := other\<rparr>)"
    by (auto simp: getAnalysisById_def findOne_def split: option.splits)
next
  fix i doc other j
  assume h: "castObjectId (gr_analysisId req) = Some i \<and> st_docs s i = Some doc \<and>
      doc_userId doc \<noteq> gr_user req \<and> castObjectId other = Some j \<and> st_docs s j = None"
    and up: "st_available s \<and> gr_user req \<noteq> None"
  then show "getAnalysisById castObjectId s req = not_found"
    by (auto simp: getAnalysisById_def findOne_def split: option.splits)
next
  fix other
  assume "castObjectId other = None"
  then show "getAnalysisById castObjectId s (req\<lparr>gr_analysisId := other\<rparr>) = fetch_failed"
    by (simp add: getAnalysisById_def findOne_def split: option.splits)
qed

text \<open>A store with one completed record of user 1.\<close>

definition widgets_doc :: analysis_doc where
  "widgets_doc =
     new_Analysis\<lparr>doc_userId := Some 1,
                 doc_repositoryUrl := ''https://github.com/acme/widgets'',
                 doc_status := ''completed'',
                 doc_analysisData := JObj [(''summary'', JObj [(''totalFiles'', JNum 3)])],
                 doc_metrics := JObj [(''totalLines'', JNum 120)],
                 doc_createdAt := Some 1000, doc_updatedAt := Some 1000\<rparr>"

definition widgets_store :: store where
  "widgets_store =
     \<lparr>st_docs = Map.empty(7 \<mapsto> widgets_doc), st_available = True, st_now = 2000\<rparr>"

lemma sample_object_ids:
  "hex_ObjectId ''000000000000000000000007'' = Some 7"
  "hex_ObjectId ''000000000000000000000008'' = Some 8"
  "hex_ObjectId ''abc'' = None"
  by code_simp+

theorem getAnalysisById_owner_only_witness:
  "getAnalysisById hex_ObjectId widgets_store
     \<lparr>gr_analysisId = ''000000000000000000000007'', gr_includeFiles = None,
      gr_includeMetrics = Some ''true'', gr_user = Some 2\<rparr> = not_found \<and>
   getAnalysisById hex_ObjectId widgets_store
     \<lparr>gr_analysisId = ''000000000000000000000008'', gr_includeFiles = None,
      gr_includeMetrics = Some ''true'', gr_user = Some 2\<rparr> = not_found"
  using getAnalysisById_owner_only
          [of hex_ObjectId widgets_store
              "\<lparr>gr_analysisId = ''000000000000000000000007'', gr_includeFiles = None,
                gr_includeMetrics = Some ''true'', gr_user = Some 2\<rparr>"]
  by (simp add: widgets_store_def widgets_doc_def new_Analysis_def getAnalysisById_def
      findOne_def sample_object_ids)

text \<open>User 2 asks for the record of user 1 and is answered 404; asking for the
  identifier \<^verbatim>\<open>abc\<close>, which has no record either, user 2 is answered 500.\<close>

theorem getAnalysisById_malformed_id:
  "getAnalysisById hex_ObjectId widgets_store
     \<lparr>gr_analysisId = ''000000000000000000000007'', gr_includeFiles = None,
      gr_includeMetrics = None, gr_user = Some 2\<rparr> =
     Response 404 (JObj [(''success'', JBool False), (''error'', JStr ''Analysis not found'')]) \<and>
   getAnalysisById hex_ObjectId widgets_store
     \<lparr>gr_analysisId = ''abc'', gr_includeFiles = None, gr_includeMetrics = None,
      gr_user = Some 2\<rparr> =
     Response 500
       (JObj [(''success'', JBool False), (''error'', JStr ''Failed to fetch analysis'')])"
  by (simp add: getAnalysisById_def findOne_def sample_object_ids widgets_store_def
      widgets_doc_def new_Analysis_def not_found_def fetch_failed_def)

lemma stamp_fields:
  "doc_status (stamp now doc) = doc_status doc"
  "doc_analysisData (stamp now doc) = doc_analysisData doc"
  "doc_metrics (stamp now doc) = doc_metrics doc"
  "doc_userId (stamp now doc) = doc_userId doc"
  by (simp_all add: stamp_def)















section \<open>Properties of the pipeline\<close>

lemma cleanupTempDir_removes:
  "\<not> rm_fails e \<Longrightarrow> w_disk (cleanupTempDir e p w) p = None"
  by (simp add: cleanupTempDir_def Let_def)

lemma cleanupTempDir_keeps:
  "rm_fails e \<Longrightarrow> w_disk (cleanupTempDir e p w) = w_disk w"
  by (simp add: cleanupTempDir_def Let_def)

lemma getFileList_after_cleanup:
  "\<not> rm_fails e \<Longrightarrow> getFileList (w_disk (cleanupTempDir e p w)) p = Inl ENOENT"
  by (simp add: getFileList_def cleanupTempDir_removes)

lemma analyzeRepository_clone_error:
  assumes "cloneRepository e url (branch_of opts) (depth_of opts) w = (Some (Inl err), w1)"
  shows "analyzeRepository e url opts w = (Some (Inl err), w1)"
  using assms by (simp add: analyzeRepository_def branch_of_def depth_of_def Let_def)

lemma analyzeRepository_stage_error:
  assumes "cloneRepository e url (branch_of opts) (depth_of opts) w = (Some (Inr p), w1)"
    and "analyze_workspace e (includes_dependencies opts) (w_disk w1) p = Inl err"
  shows "analyzeRepository e url opts w = (Some (Inl err), w1)"
  using assms
  by (simp add: analyzeRepository_def branch_of_def depth_of_def includes_dependencies_def
      Let_def)

lemma analyzeRepository_after_cleanup:
  assumes "cloneRepository e url (branch_of opts) (depth_of opts) w = (Some (Inr p), w1)"
    and "analyze_workspace e (includes_dependencies opts) (w_disk w1) p = Inr x"
    and "\<not> rm_fails e"
  shows "analyzeRepository e url opts w = (Some (Inl ENOENT), cleanupTempDir e p w1)"
  using assms
  by (simp add: analyzeRepository_def branch_of_def depth_of_def includes_dependencies_def
      Let_def getFileList_after_cleanup split: prod.splits)

lemma analyzeRepository_no_result:
  assumes "\<not> rm_fails e"
  shows "fst (analyzeRepository e url opts w) \<noteq> Some (Inr r)"
proof (cases "cloneRepository e url (branch_of opts) (depth_of opts) w")
  case (Pair res w1)
  show ?thesis
  proof (cases res)
    case None
    with Pair show ?thesis
      by (simp add: analyzeRepository_def branch_of_def depth_of_def Let_def)
  next
    case (Some out)
    show ?thesis
    proof (cases out)
      case (Inl err)
      with Pair Some show ?thesis by (simp add: analyzeRepository_clone_error)
    next
      case (Inr p)
      show ?thesis
      proof (cases "analyze_workspace e (includes_dependencies opts) (w_disk w1) p")
        case stage: (Inl err)
        with Pair Some Inr show ?thesis by (simp add: analyzeRepository_stage_error)
      next
        case stages: (Inr x)
        with Pair Some Inr assms show ?thesis by (simp add: analyzeRepository_after_cleanup)
      qed
    qed
  qed
qed

lemma analyze_workspace_without_dependencies:
  assumes "d p = Some items"
  shows "\<exists>x. analyze_workspace e False d p = Inr x"
  using assms
  by (simp add: analyze_workspace_def bind_result_def analyzeStructure_def
      detectLanguages_def findConfigFiles_def calculateMetrics_def Let_def)

lemma analyze_workspace_without_manifests:
  assumes "d p = Some items"
    and "find_entry ''package.json'' items = None"
    and "find_entry ''requirements.txt'' items = None"
  shows "\<exists>x. analyze_workspace e incl d p = Inr x"
  using assms
  by (simp add: analyze_workspace_def bind_result_def analyzeStructure_def
      detectLanguages_def findConfigFiles_def calculateMetrics_def Let_def
      analyzeDependencies_def package_json_dependencies_def existsSync_def)

lemma analyzeDependencies_syntax_error:
  assumes "d p = Some items"
    and "find_entry ''package.json'' items = Some (File n sz (Some body))"
    and "parse body = None"
  shows "analyzeDependencies parse d p = Inl SyntaxError"
  using assms
  by (simp add: analyzeDependencies_def package_json_dependencies_def existsSync_def
      readFileSync_def)

lemma analyze_workspace_syntax_error:
  assumes "d p = Some items"
    and "find_entry ''package.json'' items = Some (File n sz (Some body))"
    and "JSON_parse e body = None"
  shows "analyze_workspace e True d p = Inl SyntaxError"
  using assms
  by (simp add: analyze_workspace_def bind_result_def analyzeStructure_def
      detectLanguages_def findConfigFiles_def analyzeDependencies_syntax_error)

lemma analyzeRepository_when_rm_fails:
  assumes "cloneRepository e url (branch_of opts) (depth_of opts) w = (Some (Inr p), w1)"
    and "analyze_workspace e (includes_dependencies opts) (w_disk w1) p = Inr x"
    and "w_disk w1 p = Some items"
    and "rm_fails e"
  shows "\<exists>r. analyzeRepository e url opts w = (Some (Inr r), cleanupTempDir e p w1)"
  using assms
  by (simp add: analyzeRepository_def branch_of_def depth_of_def includes_dependencies_def
      Let_def getFileList_def cleanupTempDir_keeps split: prod.splits)

lemma save_available:
  assumes "validate doc" and "st_available s"
  shows "save i doc s = Inr (s\<lparr>st_docs := (st_docs s)(i \<mapsto> stamp (st_now s) doc)\<rparr>)"
  using assms by (simp add: save_def)

lemma controller_service_error:
  assumes "req_user req = Some userId"
    and "analyzeRepository (ce_env ce) (req_url req) (request_options req) (sys_world sys) =
           (Some (Inl err), w1)"
    and "trim (req_url req) \<noteq> []"
    and "st_available (sys_store sys)"
  shows "fst (AnalyzeController_analyzeRepository ce req sys) =
           Some (Inr (Response 500
                  (JObj [(''success'', JBool False),
                         (''error'', JStr ''Repository analysis failed''),
                         (''details'', JStr (error_message err))])))"
    and "map_option doc_status
           (st_docs (sys_store (snd (AnalyzeController_analyzeRepository ce req sys)))
              (ce_failed_id ce)) = Some ''failed''"
    and "sys_world (snd (AnalyzeController_analyzeRepository ce req sys)) = w1"
    and "i \<noteq> ce_failed_id ce \<Longrightarrow>
           st_docs (sys_store (snd (AnalyzeController_analyzeRepository ce req sys))) i =
             st_docs (sys_store sys) i"
proof -
  let ?doc = "new_Analysis\<lparr>doc_userId := req_user req,
                          doc_repositoryUrl := trim (req_url req),
                          doc_status := ''failed'',
                          doc_error := Some (JStr (error_message err))\<rparr>"
  have "validate ?doc"
    using assms(1,3) by (simp add: validate_def status_enum_def)
  then have sv: "save (ce_failed_id ce) ?doc (sys_store sys) =
      Inr ((sys_store sys)\<lparr>st_docs := (st_docs (sys_store sys))
             (ce_failed_id ce \<mapsto> stamp (st_now (sys_store sys)) ?doc)\<rparr>)"
    using assms(4) by (rule save_available)
  have url: "req_url req \<noteq> []" using assms(3) by (auto simp: trim_def)
  have fa: "fail_analysis ce req err (sys_store sys) =
      (Inr (Response 500
              (JObj [(''success'', JBool False),
                     (''error'', JStr ''Repository analysis failed''),
                     (''details'', JStr (error_message err))])),
       (sys_store sys)\<lparr>st_docs := (st_docs (sys_store sys))
             (ce_failed_id ce \<mapsto> stamp (st_now (sys_store sys)) ?doc)\<rparr>)"
    unfolding fail_analysis_def Let_def using url by (simp add: sv)
  have run: "AnalyzeController_analyzeRepository ce req sys =
      (Some (Inr (Response 500
              (JObj [(''success'', JBool False),
                     (''error'', JStr ''Repository analysis failed''),
                     (''details'', JStr (error_message err))]))),
       \<lparr>sys_world = w1,
        sys_store = (sys_store sys)\<lparr>st_docs := (st_docs (sys_store sys))
             (ce_failed_id ce \<mapsto> stamp (st_now (sys_store sys)) ?doc)\<rparr>\<rparr>)"
    unfolding AnalyzeController_analyzeRepository_def
    using assms(1,2) by (simp add: fa request_options_def)
  show "fst (AnalyzeController_analyzeRepository ce req sys) =
           Some (Inr (Response 500
                  (JObj [(''success'', JBool False),
                         (''error'', JStr ''Repository analysis failed''),
                         (''details'', JStr (error_message err))])))"
    by (simp add: run)
  show "map_option doc_status
           (st_docs (sys_store (snd (AnalyzeController_analyzeRepository ce req sys)))
              (ce_failed_id ce)) = Some ''failed''"
    by (simp add: run stamp_fields)
  show "sys_world (snd (AnalyzeController_analyzeRepository ce req sys)) = w1"
    by (simp add: run)
  show "st_docs (sys_store (snd (AnalyzeController_analyzeRepository ce req sys))) i =
             st_docs (sys_store sys) i" if "i \<noteq> ce_failed_id ce"
    using that by (simp add: run)
qed

lemma generateSummary_mock:
  "\<exists>summary. generateSummary r getMockInsights = Inr summary"
  by (simp add: generateSummary_def get_property_def getMockInsights_def)

lemma controller_completes:
  assumes user: "req_user req = Some userId"
    and run: "analyzeRepository (ce_env ce) (req_url req) (request_options req) (sys_world sys) =
           (Some (Inr r), w1)"
    and url: "trim (req_url req) \<noteq> []"
    and up: "st_available (sys_store sys)"
    and summary: "generateSummary r
                    (getRepositoryInsights (JSON_parse (ce_env ce)) (ce_openai ce)) = Inr sm"
  shows "\<exists>body. fst (AnalyzeController_analyzeRepository ce req sys) =
                  Some (Inr (Response 200 body))"
    and "map_option doc_status
           (st_docs (sys_store (snd (AnalyzeController_analyzeRepository ce req sys)))
              (ce_analysis_id ce)) = Some ''completed''"
    and "map_option (\<lambda>doc. chain (Some (doc_analysisData doc)) ''aiInsights'')
           (st_docs (sys_store (snd (AnalyzeController_analyzeRepository ce req sys)))
              (ce_analysis_id ce)) =
         Some (Some (getRepositoryInsights (JSON_parse (ce_env ce)) (ce_openai ce)))"
proof -
  let ?ai = "getRepositoryInsights (JSON_parse (ce_env ce)) (ce_openai ce)"
  let ?doc = "new_Analysis\<lparr>doc_userId := Some userId,
                doc_repositoryUrl := trim (req_url req),
                doc_branch := (case req_branch req of None \<Rightarrow> ''main'' | Some b \<Rightarrow> b),
                doc_analysisData :=
                  JObj (result_fields r @ [(''aiInsights'', ?ai), (''summary'', sm)]),
                doc_status := ''completed'',
                doc_metrics := AnalyzeController_calculateMetrics (ce_random ce) r\<rparr>"
  let ?s1 = "(sys_store sys)\<lparr>st_docs := (st_docs (sys_store sys))
               (ce_analysis_id ce \<mapsto> stamp (st_now (sys_store sys)) ?doc)\<rparr>"
  have "validate ?doc" using url by (simp add: validate_def status_enum_def)
  then have sv: "save (ce_analysis_id ce) ?doc (sys_store sys) = Inr ?s1"
    using up by (rule save_available)
  have ca: "complete_analysis ce req userId r (sys_store sys) = Inr (sm, ?ai, ?s1)"
    unfolding complete_analysis_def Let_def by (simp add: summary sv)
  have ctl: "AnalyzeController_analyzeRepository ce req sys =
      (Some (Inr (success_response ce req sm ?ai ?s1)), \<lparr>sys_world = w1, sys_store = ?s1\<rparr>)"
    unfolding AnalyzeController_analyzeRepository_def
    using user run by (simp add: ca request_options_def)
  show "\<exists>body. fst (AnalyzeController_analyzeRepository ce req sys) =
                  Some (Inr (Response 200 body))"
    by (simp add: ctl success_response_def Let_def)
  show "map_option doc_status
           (st_docs (sys_store (snd (AnalyzeController_analyzeRepository ce req sys)))
              (ce_analysis_id ce)) = Some ''completed''"
    by (simp add: ctl stamp_fields)
  show "map_option (\<lambda>doc. chain (Some (doc_analysisData doc)) ''aiInsights'')
           (st_docs (sys_store (snd (AnalyzeController_analyzeRepository ce req sys)))
              (ce_analysis_id ce)) = Some (Some ?ai)"
    by (simp add: ctl stamp_fields result_fields_def)
qed

text \<open>
  Claim C3, as the code has it.  When the inference call raises (the promise rejects,
  or the completion has no first choice to read) getRepositoryInsights returns,
  without raising, the fixed mock insights, whose keys are exactly architecture,
  quality, performance, security, devops; and a run whose analysis result the service
  returned is then stored as completed with those insights and answered with 200.
\<close>

theorem enrichment_failure_falls_back:
  assumes outcome: "ce_openai ce = Rejects \<or> ce_openai ce = Resolves []"
    and user: "req_user req = Some userId"
    and run: "analyzeRepository (ce_env ce) (req_url req) (request_options req) (sys_world sys) =
           (Some (Inr r), w1)"
    and url: "trim (req_url req) \<noteq> []"
    and up: "st_available (sys_store sys)"
  shows "getRepositoryInsights (JSON_parse (ce_env ce)) (ce_openai ce) = getMockInsights \<and>
         object_keys getMockInsights =
           [''architecture'', ''quality'', ''performance'', ''security'', ''devops''] \<and>
         (\<exists>body. fst (AnalyzeController_analyzeRepository ce req sys) =
                   Some (Inr (Response 200 body))) \<and>
         map_option doc_status
           (st_docs (sys_store (snd (AnalyzeController_analyzeRepository ce req sys)))
              (ce_analysis_id ce)) = Some ''completed'' \<and>
         map_option (\<lambda>doc. chain (Some (doc_analysisData doc)) ''aiInsights'')
           (st_docs (sys_store (snd (AnalyzeController_analyzeRepository ce req sys)))
              (ce_analysis_id ce)) = Some (Some getMockInsights)"
proof -
  have mock: "getRepositoryInsights (JSON_parse (ce_env ce)) (ce_openai ce) = getMockInsights"
    using outcome by (auto simp: getRepositoryInsights_def)
  obtain sm where sm: "generateSummary r
      (getRepositoryInsights (JSON_parse (ce_env ce)) (ce_openai ce)) = Inr sm"
    unfolding mock using generateSummary_mock by blast
  have keys: "object_keys getMockInsights =
           [''architecture'', ''quality'', ''performance'', ''security'', ''devops'']"
    by (simp add: getMockInsights_def)
  from controller_completes [OF user run url up sm] mock keys show ?thesis by simp
qed

section \<open>Sample runs\<close>

definition sample_path :: string where
  "sample_path = ''/srv/temp/repos/1700000000000_k3j9x2a1b''"

definition sample_url :: string where
  "sample_url = ''https://github.com/acme/widgets''"

definition sample_request :: request where
  "sample_request =
     \<lparr>req_url = sample_url, req_branch = Some ''main'', req_depth = Some 3,
      req_includeDependencies = None, req_user = Some 1\<rparr>"

definition empty_system :: system where
  "empty_system =
     \<lparr>sys_world = world0,
      sys_store = \<lparr>st_docs = Map.empty, st_available = True, st_now = 5000\<rparr>\<rparr>"

text \<open>An environment whose clone succeeds and delivers the given tree.\<close>

definition cloning_env :: "(string \<Rightarrow> json option) \<Rightarrow> entry list \<Rightarrow> bool \<Rightarrow> env" where
  "cloning_env parse items rm_raises =
     \<lparr>shell = (\<lambda>command d. Exit_ok (d(sample_path \<mapsto> items))),
      JSON_parse = parse, rm_fails = rm_raises,
      repoId = ''1700000000000_k3j9x2a1b'', tempDir = ''/srv/temp/repos''\<rparr>"

definition sample_controller_env :: "env \<Rightarrow> ai_outcome \<Rightarrow> controller_env" where
  "sample_controller_env e outcome =
     \<lparr>ce_env = e, ce_openai = outcome, ce_random = 17, ce_analysis_id = 41,
      ce_failed_id = 42\<rparr>"

lemma sample_options:
  "branch_of (request_options sample_request) = ''main''"
  "depth_of (request_options sample_request) = 3"
  "includes_dependencies (request_options sample_request)"
  by (simp_all add: branch_of_def depth_of_def includes_dependencies_def request_options_def
      sample_request_def)

lemma cloning_env_clone:
  "\<exists>w1. cloneRepository (cloning_env parse items rm_raises) url branch depth world0 =
           (Some (Inr sample_path), w1) \<and>
         w_disk w1 sample_path = Some items \<and> w_rm_log w1 = []"
  by (simp add: cloneRepository_def execPromise_def cloning_env_def workspace_path_def
      sample_path_def world0_def Let_def)

lemma sample_request_fields:
  "req_url sample_request = sample_url"
  "req_user sample_request = Some 1"
  "req_includeDependencies sample_request = None"
  by (simp_all add: sample_request_def)

lemma sample_request_url: "trim (req_url sample_request) \<noteq> []"
  by (simp add: sample_request_def sample_url_def trim_def is_space_def)

lemma sample_items_no_manifest:
  "find_entry ''package.json'' sample_items = None"
  "find_entry ''requirements.txt'' sample_items = None"
  by (simp_all add: sample_items_def)

theorem enrichment_failure_witness:
  "(\<exists>body. fst (AnalyzeController_analyzeRepository
                 (sample_controller_env (cloning_env manifest_parse sample_items True) Rejects)
                 sample_request empty_system) = Some (Inr (Response 200 body))) \<and>
   map_option doc_status
     (st_docs (sys_store (snd (AnalyzeController_analyzeRepository
                 (sample_controller_env (cloning_env manifest_parse sample_items True) Rejects)
                 sample_request empty_system))) 41) = Some ''completed''"
proof -
  let ?e = "cloning_env manifest_parse sample_items True"
  let ?ce = "sample_controller_env ?e Rejects"
  obtain w1 where clone: "cloneRepository ?e sample_url ''main'' 3 world0 =
      (Some (Inr sample_path), w1)" and disk: "w_disk w1 sample_path = Some sample_items"
    using cloning_env_clone [of manifest_parse sample_items True sample_url "''main''" 3] by blast
  obtain x where stages: "analyze_workspace ?e True (w_disk w1) sample_path = Inr x"
    using analyze_workspace_without_manifests
            [of "w_disk w1" sample_path sample_items ?e True, OF disk sample_items_no_manifest]
    by blast
  have rm: "rm_fails ?e" by (simp add: cloning_env_def)
  obtain r where run: "analyzeRepository ?e sample_url (request_options sample_request) world0 =
      (Some (Inr r), cleanupTempDir ?e sample_path w1)"
    using analyzeRepository_when_rm_fails
            [of ?e sample_url "request_options sample_request" world0 sample_path w1 x
                sample_items]
      clone stages disk rm
    by (auto simp: sample_options)
  have run': "analyzeRepository (ce_env ?ce) (req_url sample_request)
      (request_options sample_request) (sys_world empty_system) =
      (Some (Inr r), cleanupTempDir ?e sample_path w1)"
    using run by (simp add: sample_controller_env_def sample_request_fields empty_system_def)
  have outcome: "ce_openai ?ce = Rejects \<or> ce_openai ?ce = Resolves []"
    by (simp add: sample_controller_env_def)
  have user: "req_user sample_request = Some 1" by (simp add: sample_request_def)
  have up: "st_available (sys_store empty_system)" by (simp add: empty_system_def)
  from enrichment_failure_falls_back [OF outcome user run' sample_request_url up]
  show ?thesis by (simp add: sample_controller_env_def)
qed

text \<open>
  Claim C4, as the code has it.  analyzeDependencies has no handler around
  \<^verbatim>\<open>JSON.parse\<close>: when the workspace holds a readable package.json that is not JSON
  and dependencies are requested, the SyntaxError leaves analyzeDependencies and
  analyzeRepository, the workspace stays as the clone left it, and the controller
  answers 500 and stores the run as failed; no completed record is written.  Only a
  line of requirements.txt that does not match the pattern is passed over.
\<close>

theorem malformed_manifest_aborts:
  assumes user: "req_user req = Some userId"
    and url: "trim (req_url req) \<noteq> []"
    and up: "st_available (sys_store sys)"
    and incl: "req_includeDependencies req \<noteq> Some False"
    and clone: "cloneRepository (ce_env ce) (req_url req) (branch_of (request_options req))
                  (depth_of (request_options req)) (sys_world sys) = (Some (Inr p), w1)"
    and root: "w_disk w1 p = Some items"
    and manifest: "find_entry ''package.json'' items = Some (File n sz (Some body))"
    and bad: "JSON_parse (ce_env ce) body = None"
  shows "analyzeDependencies (JSON_parse (ce_env ce)) (w_disk w1) p = Inl SyntaxError \<and>
         analyzeRepository (ce_env ce) (req_url req) (request_options req) (sys_world sys) =
           (Some (Inl SyntaxError), w1) \<and>
         fst (AnalyzeController_analyzeRepository ce req sys) =
           Some (Inr (Response 500
                  (JObj [(''success'', JBool False),
                         (''error'', JStr ''Repository analysis failed''),
                         (''details'', JStr (error_message SyntaxError))]))) \<and>
         map_option doc_status
           (st_docs (sys_store (snd (AnalyzeController_analyzeRepository ce req sys)))
              (ce_failed_id ce)) = Some ''failed'' \<and>
         (ce_analysis_id ce \<noteq> ce_failed_id ce \<longrightarrow>
            st_docs (sys_store (snd (AnalyzeController_analyzeRepository ce req sys)))
              (ce_analysis_id ce) = st_docs (sys_store sys) (ce_analysis_id ce)) \<and>
         (match_requirement line = None \<longrightarrow>
            pip_records (line # lines) deps = pip_records lines deps)"
proof -
  have deps: "analyzeDependencies (JSON_parse (ce_env ce)) (w_disk w1) p = Inl SyntaxError"
    using root manifest bad by (rule analyzeDependencies_syntax_error)
  have inc: "includes_dependencies (request_options req)"
    using incl
    by (cases "req_includeDependencies req")
       (auto simp: includes_dependencies_def request_options_def)
  have "analyze_workspace (ce_env ce) True (w_disk w1) p = Inl SyntaxError"
    using root manifest bad by (rule analyze_workspace_syntax_error)
  then have stages: "analyze_workspace (ce_env ce) (includes_dependencies (request_options req))
      (w_disk w1) p = Inl SyntaxError"
    using inc by simp
  have run: "analyzeRepository (ce_env ce) (req_url req) (request_options req) (sys_world sys) =
           (Some (Inl SyntaxError), w1)"
    using clone stages by (rule analyzeRepository_stage_error)
  note ctl = controller_service_error [OF user run url up]
  have skip: "match_requirement line = None \<longrightarrow>
            pip_records (line # lines) deps = pip_records lines deps"
    by simp
  from deps run ctl(1) ctl(2) ctl(4) [of "ce_analysis_id ce"] skip show ?thesis
    by simp
qed

text \<open>A clone that delivers a package.json cut off in the middle.\<close>

definition broken_json_text :: string where
  \<open>broken_json_text = ''{"dependencies":{"express":''\<close>

definition broken_items :: "entry list" where
  "broken_items = [File ''package.json'' 27 (Some broken_json_text), File ''index.js'' 0 (Some [])]"

lemma broken_manifest:
  "find_entry ''package.json'' broken_items =
     Some (File ''package.json'' 27 (Some broken_json_text))"
  "manifest_parse broken_json_text = None"
  by (simp_all add: broken_items_def manifest_parse_def broken_json_text_def
      manifest_json_text_def)

theorem malformed_manifest_witness:
  "fst (AnalyzeController_analyzeRepository
          (sample_controller_env (cloning_env manifest_parse broken_items False) Rejects)
          sample_request empty_system) =
     Some (Inr (Response 500
            (JObj [(''success'', JBool False),
                   (''error'', JStr ''Repository analysis failed''),
                   (''details'', JStr ''Unexpected token in JSON'')]))) \<and>
   map_option doc_status
     (st_docs (sys_store (snd (AnalyzeController_analyzeRepository
                 (sample_controller_env (cloning_env manifest_parse broken_items False) Rejects)
                 sample_request empty_system))) 42) = Some ''failed'' \<and>
   st_docs (sys_store (snd (AnalyzeController_analyzeRepository
                 (sample_controller_env (cloning_env manifest_parse broken_items False) Rejects)
                 sample_request empty_system))) 41 = None"
proof -
  let ?e = "cloning_env manifest_parse broken_items False"
  let ?ce = "sample_controller_env ?e Rejects"
  obtain w1 where clone: "cloneRepository ?e sample_url ''main'' 3 world0 =
      (Some (Inr sample_path), w1)" and disk: "w_disk w1 sample_path = Some broken_items"
    using cloning_env_clone [of manifest_parse broken_items False sample_url "''main''" 3] by blast
  have clone': "cloneRepository (ce_env ?ce) (req_url sample_request)
      (branch_of (request_options sample_request)) (depth_of (request_options sample_request))
      (sys_world empty_system) = (Some (Inr sample_path), w1)"
    using clone
    by (simp add: sample_options sample_controller_env_def sample_request_fields
        empty_system_def)
  have user: "req_user sample_request = Some 1" by (simp add: sample_request_def)
  have up: "st_available (sys_store empty_system)" by (simp add: empty_system_def)
  have incl: "req_includeDependencies sample_request \<noteq> Some False"
    by (simp add: sample_request_def)
  have bad: "JSON_parse (ce_env ?ce) broken_json_text = None"
    by (simp add: sample_controller_env_def cloning_env_def broken_manifest)
  from malformed_manifest_aborts
         [OF user sample_request_url up incl clone' disk broken_manifest(1) bad]
  show ?thesis
    by (simp add: sample_controller_env_def empty_system_def)
qed

theorem malformed_manifest_raises:
  "analyzeDependencies manifest_parse (Map.empty(sample_path \<mapsto> broken_items)) sample_path =
     Inl SyntaxError"
  by (simp add: analyzeDependencies_def package_json_dependencies_def existsSync_def
      readFileSync_def broken_manifest)

text \<open>
  Claim C2 on the code.  A clone that succeeds, a tree every stage accepts, and a
  cleanup that removes the workspace: getFileList then lists a directory that no
  longer exists, analyzeRepository raises ENOENT instead of returning its result, and
  the controller answers 500 and stores the run as failed; no completed record is
  written.  By \<open>analyzeRepository_no_result\<close> this is so for every run whose cleanup
  succeeds.
\<close>

theorem analyzeRepository_fails_on_success_path:
  "fst (analyzeRepository (cloning_env manifest_parse sample_items False) sample_url
          (request_options sample_request) world0) = Some (Inl ENOENT) \<and>
   fst (AnalyzeController_analyzeRepository
          (sample_controller_env (cloning_env manifest_parse sample_items False) (Resolves [Some ''{}'']))
          sample_request empty_system) =
     Some (Inr (Response 500
            (JObj [(''success'', JBool False),
                   (''error'', JStr ''Repository analysis failed''),
                   (''details'', JStr ''ENOENT: no such file or directory'')]))) \<and>
   map_option doc_status
     (st_docs (sys_store (snd (AnalyzeController_analyzeRepository
        (sample_controller_env (cloning_env manifest_parse sample_items False) (Resolves [Some ''{}'']))
        sample_request empty_system))) 42) = Some ''failed'' \<and>
   st_docs (sys_store (snd (AnalyzeController_analyzeRepository
        (sample_controller_env (cloning_env manifest_parse sample_items False) (Resolves [Some ''{}'']))
        sample_request empty_system))) 41 = None"
proof -
  let ?e = "cloning_env manifest_parse sample_items False"
  let ?ce = "sample_controller_env ?e (Resolves [Some ''{}''])"
  obtain w1 where clone: "cloneRepository ?e sample_url ''main'' 3 world0 =
      (Some (Inr sample_path), w1)" and disk: "w_disk w1 sample_path = Some sample_items"
    using cloning_env_clone [of manifest_parse sample_items False sample_url "''main''" 3] by blast
  obtain x where stages: "analyze_workspace ?e True (w_disk w1) sample_path = Inr x"
    using analyze_workspace_without_manifests
            [of "w_disk w1" sample_path sample_items ?e True, OF disk sample_items_no_manifest]
    by blast
  have rm: "\<not> rm_fails ?e" by (simp add: cloning_env_def)
  have run: "analyzeRepository ?e sample_url (request_options sample_request) world0 =
      (Some (Inl ENOENT), cleanupTempDir ?e sample_path w1)"
    using analyzeRepository_after_cleanup
            [of ?e sample_url "request_options sample_request" world0 sample_path w1 x]
      clone stages rm
    by (simp add: sample_options)
  have run': "analyzeRepository (ce_env ?ce) (req_url sample_request)
      (request_options sample_request) (sys_world empty_system) =
      (Some (Inl ENOENT), cleanupTempDir ?e sample_path w1)"
    using run by (simp add: sample_controller_env_def sample_request_fields empty_system_def)
  have up: "st_available (sys_store empty_system)" by (simp add: empty_system_def)
  note ctl = controller_service_error
               [OF sample_request_fields(2) run' sample_request_url up]
  from run ctl(1) ctl(2) ctl(4) [of 41] show ?thesis
    by (simp add: sample_controller_env_def empty_system_def)
qed

text \<open>
  Claim C1 on the code.  Two runs that end in an error after the workspace directory
  was created: one whose package.json is not JSON, one whose clone fails twice.  In
  both the directory is still on disk when analyzeRepository has raised, and
  \<^verbatim>\<open>fs.rmSync\<close> was never called.
\<close>

theorem workspace_left_behind_on_failure:
  "fst (analyzeRepository (cloning_env manifest_parse broken_items False) sample_url
          (request_options sample_request) world0) = Some (Inl SyntaxError) \<and>
   w_disk (snd (analyzeRepository (cloning_env manifest_parse broken_items False) sample_url
                  (request_options sample_request) world0)) sample_path = Some broken_items \<and>
   w_rm_log (snd (analyzeRepository (cloning_env manifest_parse broken_items False) sample_url
                    (request_options sample_request) world0)) = [] \<and>
   fst (analyzeRepository failing_env sample_url (request_options sample_request) world0) =
     Some (Inl (ExecError ''fatal: repository not found'')) \<and>
   w_disk (snd (analyzeRepository failing_env sample_url (request_options sample_request)
                  world0)) sample_path = Some [] \<and>
   w_rm_log (snd (analyzeRepository failing_env sample_url (request_options sample_request)
                    world0)) = []"
proof -
  let ?e = "cloning_env manifest_parse broken_items False"
  obtain w1 where clone: "cloneRepository ?e sample_url ''main'' 3 world0 =
      (Some (Inr sample_path), w1)" and disk: "w_disk w1 sample_path = Some broken_items"
      and rmlog: "w_rm_log w1 = []"
    using cloning_env_clone [of manifest_parse broken_items False sample_url "''main''" 3] by blast
  have bad: "JSON_parse ?e broken_json_text = None"
    by (simp add: cloning_env_def broken_manifest)
  have "analyze_workspace ?e True (w_disk w1) sample_path = Inl SyntaxError"
    using disk broken_manifest(1) bad by (rule analyze_workspace_syntax_error)
  then have run: "analyzeRepository ?e sample_url (request_options sample_request) world0 =
      (Some (Inl SyntaxError), w1)"
    using analyzeRepository_stage_error
            [of ?e sample_url "request_options sample_request" world0 sample_path w1 SyntaxError]
      clone
    by (simp add: sample_options)
  obtain w2 where fail: "cloneRepository failing_env sample_url ''main'' 3 world0 =
      (Some (Inl (ExecError ''fatal: repository not found'')), w2)"
    and disk2: "w_disk w2 sample_path = Some []" and rmlog2: "w_rm_log w2 = []"
    by (simp add: cloneRepository_def execPromise_def failing_env_def workspace_path_def
        sample_path_def world0_def mkdirSync_def Let_def)
  have run2: "analyzeRepository failing_env sample_url (request_options sample_request) world0 =
      (Some (Inl (ExecError ''fatal: repository not found'')), w2)"
    using analyzeRepository_clone_error
            [of failing_env sample_url "request_options sample_request" world0
                "ExecError ''fatal: repository not found''" w2]
      fail
    by (simp add: sample_options)
  show ?thesis by (simp add: run run2 disk rmlog disk2 rmlog2)
qed



lemma controller_summary_error:
  assumes user: "req_user req = Some userId"
    and run: "analyzeRepository (ce_env ce) (req_url req) (request_options req) (sys_world sys) =
           (Some (Inr r), w1)"
    and url: "trim (req_url req) \<noteq> []"
    and up: "st_available (sys_store sys)"
    and summary: "generateSummary r
                    (getRepositoryInsights (JSON_parse (ce_env ce)) (ce_openai ce)) = Inl err"
  shows "map_option doc_status
           (st_docs (sys_store (snd (AnalyzeController_analyzeRepository ce req sys)))
              (ce_failed_id ce)) = Some ''failed''"
proof -
  let ?doc = "new_Analysis\<lparr>doc_userId := req_user req,
                          doc_repositoryUrl := trim (req_url req),
                          doc_status := ''failed'',
                          doc_error := Some (JStr (error_message err))\<rparr>"
  let ?s1 = "(sys_store sys)\<lparr>st_docs := (st_docs (sys_store sys))
             (ce_failed_id ce \<mapsto> stamp (st_now (sys_store sys)) ?doc)\<rparr>"
  have "validate ?doc"
    using user url by (simp add: validate_def status_enum_def)
  then have sv: "save (ce_failed_id ce) ?doc (sys_store sys) = Inr ?s1"
    using up by (rule save_available)
  have nonempty: "req_url req \<noteq> []" using url by (auto simp: trim_def)
  have ca: "complete_analysis ce req userId r (sys_store sys) = Inl err"
    unfolding complete_analysis_def Let_def by (simp add: summary)
  have fa: "snd (fail_analysis ce req err (sys_store sys)) = ?s1"
    unfolding fail_analysis_def Let_def using nonempty by (simp add: sv)
  have "sys_store (snd (AnalyzeController_analyzeRepository ce req sys)) = ?s1"
    unfolding AnalyzeController_analyzeRepository_def
    using user run fa by (auto simp: ca split: prod.splits)
  then show ?thesis by (simp add: stamp_fields)
qed

text \<open>A reply that is not JSON comes back wrapped, without the five keys; and the
  reply \<^verbatim>\<open>null\<close> comes back as \<^verbatim>\<open>null\<close>, on which the controller's summary raises, so
  that the run is stored as failed.\<close>

definition reply_parse :: "string \<Rightarrow> json option" where
  "reply_parse t = (if t = ''null'' then Some JNull else None)"

theorem enrichment_malformed_reply:
  "getRepositoryInsights reply_parse (Resolves [Some ''Sorry, I cannot analyze this.'']) =
     JObj [(''raw'', JStr ''Sorry, I cannot analyze this.'')] \<and>
   object_keys (getRepositoryInsights reply_parse
                  (Resolves [Some ''Sorry, I cannot analyze this.''])) = [''raw''] \<and>
   getRepositoryInsights reply_parse (Resolves [Some ''null'']) = JNull \<and>
   map_option doc_status
     (st_docs (sys_store (snd (AnalyzeController_analyzeRepository
        (sample_controller_env (cloning_env reply_parse sample_items True)
           (Resolves [Some ''null'']))
        sample_request empty_system))) 42) = Some ''failed''"
proof -
  let ?e = "cloning_env reply_parse sample_items True"
  let ?ce = "sample_controller_env ?e (Resolves [Some ''null''])"
  have wrapped: "getRepositoryInsights reply_parse
      (Resolves [Some ''Sorry, I cannot analyze this.'']) =
      JObj [(''raw'', JStr ''Sorry, I cannot analyze this.'')]"
    by (simp add: getRepositoryInsights_def parseAIResponse_def reply_parse_def)
  have null: "getRepositoryInsights reply_parse (Resolves [Some ''null'']) = JNull"
    by (simp add: getRepositoryInsights_def parseAIResponse_def reply_parse_def)
  obtain w1 where clone: "cloneRepository ?e sample_url ''main'' 3 world0 =
      (Some (Inr sample_path), w1)" and disk: "w_disk w1 sample_path = Some sample_items"
    using cloning_env_clone [of reply_parse sample_items True sample_url "''main''" 3] by blast
  obtain x where stages: "analyze_workspace ?e True (w_disk w1) sample_path = Inr x"
    using analyze_workspace_without_manifests
            [of "w_disk w1" sample_path sample_items ?e True, OF disk sample_items_no_manifest]
    by blast
  have rm: "rm_fails ?e" by (simp add: cloning_env_def)
  obtain r where run: "analyzeRepository ?e sample_url (request_options sample_request) world0 =
      (Some (Inr r), cleanupTempDir ?e sample_path w1)"
    using analyzeRepository_when_rm_fails
            [of ?e sample_url "request_options sample_request" world0 sample_path w1 x
                sample_items]
      clone stages disk rm
    by (auto simp: sample_options)
  have run': "analyzeRepository (ce_env ?ce) (req_url sample_request)
      (request_options sample_request) (sys_world empty_system) =
      (Some (Inr r), cleanupTempDir ?e sample_path w1)"
    using run by (simp add: sample_controller_env_def sample_request_fields empty_system_def)
  have up: "st_available (sys_store empty_system)" by (simp add: empty_system_def)
  have raised: "generateSummary r
      (getRepositoryInsights (JSON_parse (ce_env ?ce)) (ce_openai ?ce)) = Inl TypeError"
    by (simp add: sample_controller_env_def cloning_env_def null generateSummary_def
        get_property_def)
  from controller_summary_error [OF sample_request_fields(2) run' sample_request_url up raised]
  have "map_option doc_status
     (st_docs (sys_store (snd (AnalyzeController_analyzeRepository ?ce sample_request
        empty_system))) 42) = Some ''failed''"
    by (simp add: sample_controller_env_def)
  with wrapped null show ?thesis by simp
qed

end
